theory Spec2Isabelle
  imports Main "HOL-Library.Word"
begin

unbundle bit_operations_syntax

section \<open>Machine types, buffer memory and the packet buffer\<close>

type_synonym u8 = "8 word"
type_synonym u16 = "16 word"
type_synonym u32 = "32 word"
type_synonym u64 = "64 word"

text \<open>
  The bytes a buffer's pointers can reach, addressed by their offset from \<open>b->data\<close>
  (negative offsets are the headroom before it). A header pointer such as \<open>ip0\<close> is
  the offset it points at.
\<close>

type_synonym mem = "int \<Rightarrow> u8"

text \<open>
  \<open>vlib_buffer_t\<close> (vlib/buffer.h of the host framework): the signed 16-bit read
  cursor \<open>current_data\<close>, the unsigned 16-bit count \<open>current_length\<close> of bytes from the
  cursor to the end of the packet, the bytes, and the \<open>VLIB_BUFFER_IS_TRACED\<close> bit of
  its flags.
\<close>

record vlib_buffer_t =
  current_data :: "16 word"
  current_length :: "16 word"
  data :: mem
  is_traced :: bool

definition vlib_buffer_get_current :: "vlib_buffer_t \<Rightarrow> int" where
  "vlib_buffer_get_current b = sint (current_data b)"

text \<open>\<open>b->current_data += l; b->current_length -= l;\<close> on the 16-bit fields.\<close>

definition vlib_buffer_advance :: "vlib_buffer_t \<Rightarrow> int \<Rightarrow> vlib_buffer_t" where
  "vlib_buffer_advance b l =
     b\<lparr>current_data := current_data b + word_of_int l,
       current_length := current_length b - word_of_int l\<rparr>"

text \<open>Loads and stores of the host (little-endian) through a pointer into the buffer.\<close>

definition rd16 :: "mem \<Rightarrow> int \<Rightarrow> u16" where
  "rd16 m a = push_bit 8 (ucast (m (a + 1))) OR ucast (m a)"

definition rd32 :: "mem \<Rightarrow> int \<Rightarrow> u32" where
  "rd32 m a = push_bit 16 (ucast (rd16 m (a + 2))) OR ucast (rd16 m a)"

definition rd64 :: "mem \<Rightarrow> int \<Rightarrow> u64" where
  "rd64 m a = push_bit 32 (ucast (rd32 m (a + 4))) OR ucast (rd32 m a)"

definition wr16 :: "mem \<Rightarrow> int \<Rightarrow> u16 \<Rightarrow> mem" where
  "wr16 m a v = m(a := ucast v, a + 1 := ucast (drop_bit 8 v))"

definition wr32 :: "mem \<Rightarrow> int \<Rightarrow> u32 \<Rightarrow> mem" where
  "wr32 m a v = wr16 (wr16 m a (ucast v)) (a + 2) (ucast (drop_bit 16 v))"

text \<open>Byte swaps between network and host order.\<close>

definition clib_net_to_host_u16 :: "u16 \<Rightarrow> u16" where
  "clib_net_to_host_u16 x = push_bit 8 x OR drop_bit 8 x"

definition clib_net_to_host_u32 :: "u32 \<Rightarrow> u32" where
  "clib_net_to_host_u32 x =
     push_bit 16 (ucast (clib_net_to_host_u16 (ucast x)))
       OR ucast (clib_net_to_host_u16 (ucast (drop_bit 16 x)))"

definition clib_net_to_host_u64 :: "u64 \<Rightarrow> u64" where
  "clib_net_to_host_u64 x =
     push_bit 32 (ucast (clib_net_to_host_u32 (ucast x)))
       OR ucast (clib_net_to_host_u32 (ucast (drop_bit 32 x)))"

section \<open>Header layouts read by the node\<close>

text \<open>
  The IPv4, UDP and TCP headers of the host framework (\<open>ip4_header_t\<close>,
  \<open>udp_header_t\<close>, \<open>tcp_header_t\<close>): the standard wire layouts, every multi-byte
  field loaded as it lies in memory (network order).
\<close>

definition ip_version_and_header_length :: "mem \<Rightarrow> int \<Rightarrow> u8" where
  "ip_version_and_header_length m ip0 = m ip0"

definition ip_protocol :: "mem \<Rightarrow> int \<Rightarrow> u8" where
  "ip_protocol m ip0 = m (ip0 + 9)"

definition ip_checksum_at :: "int \<Rightarrow> int" where
  "ip_checksum_at ip0 = ip0 + 10"

definition ip_src_address :: "mem \<Rightarrow> int \<Rightarrow> u32" where
  "ip_src_address m ip0 = rd32 m (ip0 + 12)"

definition ip_dst_address :: "mem \<Rightarrow> int \<Rightarrow> u32" where
  "ip_dst_address m ip0 = rd32 m (ip0 + 16)"

text \<open>\<open>src_port\<close> and \<open>dst_port\<close> lie at the same offsets in the UDP and TCP header.\<close>

definition l4_src_port :: "mem \<Rightarrow> int \<Rightarrow> u16" where
  "l4_src_port m h = rd16 m h"

definition l4_dst_port :: "mem \<Rightarrow> int \<Rightarrow> u16" where
  "l4_dst_port m h = rd16 m (h + 2)"

definition udp_checksum_at :: "int \<Rightarrow> int" where
  "udp_checksum_at udp0 = udp0 + 6"

definition tcp_seq_number :: "mem \<Rightarrow> int \<Rightarrow> u32" where
  "tcp_seq_number m tcp0 = rd32 m (tcp0 + 4)"

definition tcp_data_offset_and_reserved :: "mem \<Rightarrow> int \<Rightarrow> u8" where
  "tcp_data_offset_and_reserved m tcp0 = m (tcp0 + 12)"

definition tcp_flags :: "mem \<Rightarrow> int \<Rightarrow> u8" where
  "tcp_flags m tcp0 = m (tcp0 + 13)"

definition tcp_checksum_at :: "int \<Rightarrow> int" where
  "tcp_checksum_at tcp0 = tcp0 + 16"

text \<open>\<open>tcp_syn\<close> and \<open>tcp_ack\<close>: the SYN (0x02) and ACK (0x10) bits of the flags byte.\<close>

definition tcp_syn :: "mem \<Rightarrow> int \<Rightarrow> bool" where
  "tcp_syn m tcp0 = (tcp_flags m tcp0 AND 0x02 \<noteq> 0)"

definition tcp_ack :: "mem \<Rightarrow> int \<Rightarrow> bool" where
  "tcp_ack m tcp0 = (tcp_flags m tcp0 AND 0x10 \<noteq> 0)"

section \<open>Constants of node.c\<close>

abbreviation (input) UDP_PROTOCOL :: u8 where "UDP_PROTOCOL \<equiv> 17"
abbreviation (input) TCP_PROTOCOL :: u8 where "TCP_PROTOCOL \<equiv> 6"

abbreviation (input) SIZE_IP4 :: int where "SIZE_IP4 \<equiv> 20"
abbreviation (input) SIZE_UDP :: int where "SIZE_UDP \<equiv> 8"
abbreviation (input) SIZE_TCP :: int where "SIZE_TCP \<equiv> 20"
abbreviation (input) SIZE_QUIC_MIN :: int where "SIZE_QUIC_MIN \<equiv> 3"
abbreviation (input) SIZE_PLUS :: int where "SIZE_PLUS \<equiv> 20"
abbreviation (input) SIZE_PLUS_EXT_HELLO :: int where "SIZE_PLUS_EXT_HELLO \<equiv> 3"

abbreviation (input) IS_LONG :: u8 where "IS_LONG \<equiv> 0x80"
abbreviation (input) HAS_ID :: u8 where "HAS_ID \<equiv> 0x40"
abbreviation (input) LATENCY_TYPE :: u8 where "LATENCY_TYPE \<equiv> 0x1F"
abbreviation (input) SIZE_TYPE :: int where "SIZE_TYPE \<equiv> 1"

abbreviation (input) P_NUMBER_8 :: u8 where "P_NUMBER_8 \<equiv> 0x01"
abbreviation (input) P_NUMBER_16 :: u8 where "P_NUMBER_16 \<equiv> 0x02"
abbreviation (input) P_NUMBER_32 :: u8 where "P_NUMBER_32 \<equiv> 0x03"

abbreviation (input) SIZE_NUMBER_8 :: int where "SIZE_NUMBER_8 \<equiv> 1"
abbreviation (input) SIZE_NUMBER_16 :: int where "SIZE_NUMBER_16 \<equiv> 2"
abbreviation (input) SIZE_NUMBER_32 :: int where "SIZE_NUMBER_32 \<equiv> 4"

abbreviation (input) SIZE_ID :: int where "SIZE_ID \<equiv> 8"
abbreviation (input) SIZE_VERSION :: int where "SIZE_VERSION \<equiv> 4"
abbreviation (input) SIZE_LATENCY_SPIN :: int where "SIZE_LATENCY_SPIN \<equiv> 1"

abbreviation (input) TCP_LATENCY_MASK :: u8 where "TCP_LATENCY_MASK \<equiv> 0x0E"
abbreviation (input) TCP_LATENCY_SHIFT :: nat where "TCP_LATENCY_SHIFT \<equiv> 1"

abbreviation (input) TIMEOUT :: nat where "TIMEOUT \<equiv> 300"

datatype latency_next_t = IP4_LOOKUP

section \<open>Sessions and the state the node works on\<close>

datatype latency_protocol = P_TCP | P_QUIC | P_PLUS

datatype latency_state_t = LATENCY_STATE_ACTIVE | LATENCY_STATE_ERROR

text \<open>
  \<open>latency_session_t\<close> with the fields node.c reads and writes. \<open>est\<close> is the
  estimator storage reached through \<open>session->tcp\<close>, \<open>session->quic\<close> or
  \<open>session->plus\<close>; its type is left open. \<open>timer_expiry\<close> is the timer handle:
  the wheel tick at which the session's timer fires.
\<close>

record 'e latency_session_t =
  index :: nat
  p_type :: latency_protocol
  key :: u64
  key_reverse :: u64
  init_src_port :: u16
  init_src_ip :: u32
  new_dst_ip :: u32
  pkt_count :: u32
  state :: latency_state_t
  timer_expiry :: nat
  timer_arms :: nat
  est :: 'e

text \<open>
  The plugin's global state: the session pool (slot memory, the length of the pool
  vector, the number of slots it was sized to and its free bitmap), the hash table from flow key to pool index, and the
  tick the timer wheel has been advanced to. A session pointer is a pool index; reading
  a freed slot yields what was left there, as in C.
\<close>

record 'e latency_main_t =
  session_pool :: "nat \<Rightarrow> 'e latency_session_t"
  pool_len :: nat
  pool_max :: nat
  pool_free :: "nat \<Rightarrow> bool"
  session_table :: "u64 \<Rightarrow> nat option"
  wheel_tick :: nat

definition live :: "'e latency_main_t \<Rightarrow> nat \<Rightarrow> bool" where
  "live lm i = (i < pool_len lm \<and> \<not> pool_free lm i)"

text \<open>A store through a session pointer.\<close>

definition session_upd ::
  "nat \<Rightarrow> ('e latency_session_t \<Rightarrow> 'e latency_session_t) \<Rightarrow> 'e latency_main_t \<Rightarrow> 'e latency_main_t" where
  "session_upd i f lm = lm\<lparr>session_pool := (session_pool lm)(i := f (session_pool lm i))\<rparr>"

text \<open>Used to display LATENCY packets in the packet trace.\<close>

record latency_trace_t =
  t_src_port :: u16
  t_dst_port :: u16
  t_new_src_ip :: u32
  t_new_dst_ip :: u32
  t_type :: latency_protocol
  t_pkt_count :: u32

section \<open>What node.c calls but does not define\<close>

text \<open>
  The helpers of latency.h, latency.c and plus_packet.h and the checksum routines of the
  host framework are not part of node.c. Those that only compute are parameters of the
  model, gathered in one record and named as in the source:
  \<^item> \<open>time_to_ticks\<close>: the 100 ms tick of a clock reading (\<open>'tm\<close> is the type of
    \<open>vlib_time_now\<close>'s result);
  \<^item> \<open>get_new_dst\<close> returns the value it stores into \<open>new_dst_ip\<close> (0: no backend);
  \<^item> \<open>est_alloc\<close> is the estimator storage \<open>create_session\<close> sets up for a protocol;
    \<open>quic_set_id\<close> and \<open>plus_set_cat\<close> are the stores \<open>session->quic->id = ...\<close> and
    \<open>session->plus->cat = ...\<close>;
  \<^item> the three estimators return the updated estimator storage;
  \<^item> \<open>tcp_options_parse_mod\<close> returns its return code and the values it leaves in
    \<open>tsval\<close> and \<open>tsecr\<close> (both 0 before the call);
  \<^item> \<open>ip_nat_translation\<close> returns its result and the memory after its stores into the
    IPv4 header;
  \<^item> \<open>plus_magic_and_flags\<close>, \<open>plus_PSN\<close>, \<open>plus_PSE\<close>, \<open>plus_CAT\<close> load the fields of
    a \<open>plus_header_t\<close>, \<open>PCF_type\<close> and \<open>PCF_len_and_II\<close> those of a
    \<open>plus_ext_hop_c_h_t\<close>, and \<open>PCF_hop_c_at\<close> is the address of its one-byte
    \<open>PCF_hop_c\<close> field.
\<close>

record ('tm, 'e) latency_ops =
  time_to_ticks :: "'tm \<Rightarrow> nat"
  is_quic :: "u16 \<Rightarrow> u16 \<Rightarrow> bool"
  make_key :: "u32 \<Rightarrow> u32 \<Rightarrow> u16 \<Rightarrow> u16 \<Rightarrow> u8 \<Rightarrow> u64"
  make_plus_key :: "u32 \<Rightarrow> u32 \<Rightarrow> u16 \<Rightarrow> u16 \<Rightarrow> u8 \<Rightarrow> u64 \<Rightarrow> u64"
  get_new_dst :: "u16 \<Rightarrow> u32"
  est_alloc :: "latency_protocol \<Rightarrow> 'e"
  quic_set_id :: "u64 \<Rightarrow> 'e \<Rightarrow> 'e"
  plus_set_cat :: "u64 \<Rightarrow> 'e \<Rightarrow> 'e"
  update_quic_rtt_estimate :: "'e \<Rightarrow> 'tm \<Rightarrow> u16 \<Rightarrow> u16 \<Rightarrow> u8 \<Rightarrow> u32 \<Rightarrow> u32 \<Rightarrow> 'e"
  update_plus_rtt_estimate :: "'e \<Rightarrow> 'tm \<Rightarrow> u16 \<Rightarrow> u16 \<Rightarrow> u32 \<Rightarrow> u32 \<Rightarrow> u64 \<Rightarrow> u32 \<Rightarrow> 'e"
  update_tcp_rtt_estimate ::
    "'e \<Rightarrow> 'tm \<Rightarrow> u16 \<Rightarrow> u16 \<Rightarrow> u8 \<Rightarrow> u32 \<Rightarrow> u32 \<Rightarrow> u32 \<Rightarrow> u32 \<Rightarrow> 'e"
  tcp_options_parse_mod :: "mem \<Rightarrow> int \<Rightarrow> int \<times> u32 \<times> u32"
  ip_nat_translation :: "mem \<Rightarrow> int \<Rightarrow> u32 \<Rightarrow> u32 \<Rightarrow> bool \<times> mem"
  ip4_tcp_udp_compute_checksum :: "vlib_buffer_t \<Rightarrow> int \<Rightarrow> u16"
  ip4_header_checksum :: "mem \<Rightarrow> int \<Rightarrow> u16"
  plus_magic_and_flags :: "mem \<Rightarrow> int \<Rightarrow> u32"
  MAGIC_MASK :: u32
  MAGIC :: u32
  EXTENDED :: u32
  plus_PSN :: "mem \<Rightarrow> int \<Rightarrow> u32"
  plus_PSE :: "mem \<Rightarrow> int \<Rightarrow> u32"
  plus_CAT :: "mem \<Rightarrow> int \<Rightarrow> u64"
  PCF_type :: "mem \<Rightarrow> int \<Rightarrow> u8"
  PCF_len_and_II :: "mem \<Rightarrow> int \<Rightarrow> u8"
  PCF_hop_c_at :: "int \<Rightarrow> int"

text \<open>
  Modelled from the spec: \<open>get_session_from_key\<close> (latency.h) is the session table's
  \<open>lookup(key)\<close>: the pool index the hash map holds for the key, or none.
\<close>

definition get_session_from_key :: "u64 \<Rightarrow> 'e latency_main_t \<Rightarrow> nat option" where
  "get_session_from_key kv lm = session_table lm kv"

text \<open>
  Modelled from the spec: \<open>create_session\<close> (latency.h) is the allocation of the
  session table's \<open>insert\<close>. The pool is pre-sized (\<open>pool_max\<close> slots). While it is not
  exhausted, \<open>create_session\<close> takes a slot, a free one if the pool has one and the next
  unused one otherwise, and sets the slot up for the protocol: its index, its protocol,
  state ACTIVE, fresh estimator storage. Every other field is written by node.c before
  it is read. When the pool is exhausted (no free slot and all \<open>pool_max\<close> slots in
  use) nothing is allocated and the state is left as it is. The spec gives \<open>insert\<close> no
  failure value and node.c tests none (lines 320-321, 376-377, 476-477); the handle
  returned is then the index one past the pool, which names no slot in use.
\<close>

definition pool_get :: "'e latency_main_t \<Rightarrow> nat" where
  "pool_get lm = (case find (pool_free lm) [0..<pool_len lm] of Some i \<Rightarrow> i | None \<Rightarrow> pool_len lm)"

definition pool_exhausted :: "'e latency_main_t \<Rightarrow> bool" where
  "pool_exhausted lm = (find (pool_free lm) [0..<pool_len lm] = None \<and> pool_max lm \<le> pool_len lm)"

definition create_session ::
  "('tm, 'e) latency_ops \<Rightarrow> latency_protocol \<Rightarrow> 'e latency_main_t \<Rightarrow> nat \<times> 'e latency_main_t" where
  "create_session ops p lm =
     (let i = pool_get lm in
      if pool_exhausted lm then (i, lm)
      else
        (i, lm\<lparr>session_pool := (session_pool lm)
                  (i := \<lparr>index = i, p_type = p, key = 0, key_reverse = 0, init_src_port = 0,
                         init_src_ip = 0, new_dst_ip = 0, pkt_count = 0,
                         state = LATENCY_STATE_ACTIVE, timer_expiry = 0, timer_arms = 0,
                         est = est_alloc ops p\<rparr>),
                pool_len := max (pool_len lm) (Suc i),
                pool_free := (pool_free lm)(i := False)\<rparr>))"

text \<open>
  Modelled from the spec: \<open>update_state\<close> (latency.h) is the session table's
  \<open>alias(key, handle)\<close>: it stores the index under the key in the hash map.
\<close>

definition update_state :: "u64 \<Rightarrow> nat \<Rightarrow> 'e latency_main_t \<Rightarrow> 'e latency_main_t" where
  "update_state kv i lm = lm\<lparr>session_table := (session_table lm)(kv \<mapsto> i)\<rparr>"

text \<open>
  Modelled from the spec: \<open>start_timer\<close> and \<open>update_timer\<close> (latency.h) place the
  session in the wheel slot the given number of ticks after the wheel's current tick.
  \<open>timer_arms\<close> is not a field of the C structure: it counts these calls for the slot
  since \<open>create_session\<close>, so that re-arming a timer can be told from leaving it.
\<close>

definition start_timer :: "nat \<Rightarrow> nat \<Rightarrow> 'e latency_main_t \<Rightarrow> 'e latency_main_t" where
  "start_timer i ticks lm =
     session_upd i (\<lambda>s. s\<lparr>timer_expiry := wheel_tick lm + ticks, timer_arms := timer_arms s + 1\<rparr>) lm"

definition update_timer :: "nat \<Rightarrow> nat \<Rightarrow> 'e latency_main_t \<Rightarrow> 'e latency_main_t" where
  "update_timer i ticks lm =
     session_upd i (\<lambda>s. s\<lparr>timer_expiry := wheel_tick lm + ticks, timer_arms := timer_arms s + 1\<rparr>) lm"

text \<open>
  Modelled from the spec: the session table's \<open>remove(handle)\<close> removes both aliases and
  returns the slot to the pool.
\<close>

definition remove_session :: "nat \<Rightarrow> 'e latency_main_t \<Rightarrow> 'e latency_main_t" where
  "remove_session i lm =
     lm\<lparr>session_table := (session_table lm)(key (session_pool lm i) := None,
                                               key_reverse (session_pool lm i) := None),
        pool_free := (pool_free lm)(i := True)\<rparr>"

text \<open>
  Modelled from the spec: \<open>expire_timers\<close> (latency.h) advances the wheel from the last
  serviced tick to the tick of \<open>now\<close> and removes every session in a slot it passes.
\<close>

definition expire_slot :: "nat \<Rightarrow> nat \<Rightarrow> nat \<Rightarrow> 'e latency_main_t \<Rightarrow> 'e latency_main_t" where
  "expire_slot t_last t i lm =
     (if \<not> pool_free lm i \<and> t_last < timer_expiry (session_pool lm i)
           \<and> timer_expiry (session_pool lm i) \<le> t
      then remove_session i lm else lm)"

definition expire_timers ::
  "('tm, 'e) latency_ops \<Rightarrow> 'tm \<Rightarrow> 'e latency_main_t \<Rightarrow> 'e latency_main_t" where
  "expire_timers ops now lm =
     (let t = max (wheel_tick lm) (time_to_ticks ops now)
      in (fold (expire_slot (wheel_tick lm) t) [0..<pool_len lm] lm)\<lparr>wheel_tick := t\<rparr>)"


section \<open>The node function of node.c\<close>

text \<open>
  The variables of one iteration of the packet loop of \<open>latency_node_fn\<close>: the buffer,
  \<open>total_advance\<close>, \<open>is_udp\<close>, \<open>session\<close> (a pool index, \<open>None\<close> for NULL),
  \<open>next0\<close>, the plugin state, and the trace record when one is written. \<open>rewritten\<close>
  records that the iteration got past the NAT check of line 519.
\<close>

record 'e locals =
  b0 :: vlib_buffer_t
  total_advance :: u8
  is_udp :: bool
  session :: "nat option"
  next0 :: latency_next_t
  lmain :: "'e latency_main_t"
  rewritten :: bool
  trace :: "latency_trace_t option"

text \<open>A block of the loop body either jumps to the label \<open>skip_packet\<close> or runs on.\<close>

datatype ('s, 'a) flow = Goto_skip_packet 's | Next 'a

text \<open>\<open>vlib_buffer_advance (b0, n); total_advance += n;\<close>\<close>

definition advance :: "int \<Rightarrow> 'e locals \<Rightarrow> 'e locals" where
  "advance n L = L\<lparr>b0 := vlib_buffer_advance (b0 L) n,
                    total_advance := total_advance L + word_of_int n\<rparr>"

abbreviation cur :: "'e locals \<Rightarrow> int" where
  "cur L \<equiv> vlib_buffer_get_current (b0 L)"

abbreviation len :: "'e locals \<Rightarrow> int" where
  "len L \<equiv> uint (current_length (b0 L))"

text \<open>
  Session creation, lines 319-344, 375-401 and 475-498: the three copies differ in the
  protocol, in the key builder and in the estimator field they set (\<open>set_est\<close>: the
  connection id for QUIC, the CAT for PLUS, nothing for TCP).
\<close>

definition new_session ::
  "('tm, 'e) latency_ops \<Rightarrow> latency_protocol \<Rightarrow> ('e \<Rightarrow> 'e) \<Rightarrow> u64 \<Rightarrow> u64 \<Rightarrow> u16 \<Rightarrow> u32 \<Rightarrow> u32
     \<Rightarrow> 'e latency_main_t \<Rightarrow> nat \<times> 'e latency_main_t" where
  "new_session ops p set_est kv kv_reverse src_port src_ip new_dst lm =
     (let (i, lm1) = create_session ops p lm;
          lm2 = session_upd i (\<lambda>s. s\<lparr>key := kv\<rparr>) lm1;
          lm3 = session_upd i (\<lambda>s. s\<lparr>est := set_est (est s)\<rparr>) lm2;
          lm4 = session_upd i (\<lambda>s. s\<lparr>init_src_port := src_port, init_src_ip := src_ip,
                                      new_dst_ip := new_dst\<rparr>) lm3;
          lm5 = update_state kv (index (session_pool lm4 i)) lm4;
          lm6 = update_state kv_reverse (index (session_pool lm5 i)) lm5;
          lm7 = session_upd i (\<lambda>s. s\<lparr>key_reverse := kv_reverse\<rparr>) lm6;
          lm8 = session_upd i (\<lambda>s. s\<lparr>pkt_count := 1\<rparr>) lm7
      in (i, start_timer i TIMEOUT lm8))"

text \<open>
  Lines 307-345, 364-402 and 463-499: look the key up; without a session, ask for the
  backend of the destination port and skip the packet when there is none, else create
  the session. \<open>None\<close> is the jump to \<open>skip_packet\<close>.
\<close>

definition lookup_or_create ::
  "('tm, 'e) latency_ops \<Rightarrow> latency_protocol \<Rightarrow> ('e \<Rightarrow> 'e) \<Rightarrow> u64 \<Rightarrow> (u32 \<Rightarrow> u64) \<Rightarrow> u16 \<Rightarrow> u16
     \<Rightarrow> u32 \<Rightarrow> 'e latency_main_t \<Rightarrow> (nat \<times> 'e latency_main_t) option" where
  "lookup_or_create ops p set_est kv kv_reverse dst_port src_port src_ip lm =
     (case get_session_from_key kv lm of
        Some i \<Rightarrow> Some (i, lm)
      | None \<Rightarrow>
          (let new_dst = get_new_dst ops dst_port in
           if new_dst = 0 then None
           else Some (new_session ops p set_est kv (kv_reverse new_dst) src_port src_ip new_dst lm)))"

text \<open>Lines 253-290: the packet number of a QUIC short header.\<close>

definition quic_short_packet_number ::
  "u8 \<Rightarrow> 'e locals \<Rightarrow> ('e locals, u32 \<times> 'e locals) flow" where
  "quic_short_packet_number ty L =
     (let m = data (b0 L) in
      if ty AND LATENCY_TYPE = P_NUMBER_8 then
        (if SIZE_NUMBER_8 \<le> len L
         then Next (ucast (m (cur L)), advance SIZE_NUMBER_8 L)
         else Goto_skip_packet L)
      else if ty AND LATENCY_TYPE = P_NUMBER_16 then
        (if SIZE_NUMBER_16 \<le> len L
         then Next (ucast (clib_net_to_host_u16 (rd16 m (cur L))), advance SIZE_NUMBER_16 L)
         else Goto_skip_packet L)
      else if ty AND LATENCY_TYPE = P_NUMBER_32 then
        (if SIZE_NUMBER_32 \<le> len L
         then Next (clib_net_to_host_u32 (rd32 m (cur L)), advance SIZE_NUMBER_32 L)
         else Goto_skip_packet L)
      else Goto_skip_packet L)"

text \<open>
  Lines 203-291: the QUIC header, long or short. The result is the connection id, the
  packet number and the variables after the header.
\<close>

definition quic_header :: "'e locals \<Rightarrow> ('e locals, u64 \<times> u32 \<times> 'e locals) flow" where
  "quic_header L =
     (let m = data (b0 L); ty = m (cur L) in
      if ty AND IS_LONG \<noteq> 0 then
        (let L1 = advance SIZE_TYPE L;
             connection_id = clib_net_to_host_u64 (rd64 m (cur L1));
             L2 = advance SIZE_ID L1;
             packet_number = clib_net_to_host_u32 (rd32 m (cur L2));
             L3 = advance SIZE_NUMBER_32 L2;
             L4 = advance SIZE_VERSION L3
         in Next (connection_id, packet_number, L4))
      else
        (let L1 = advance SIZE_TYPE L;
             has_id = (ty AND HAS_ID \<noteq> 0 \<and> SIZE_ID \<le> len L1);
             connection_id = (if has_id then clib_net_to_host_u64 (rd64 m (cur L1)) else 0);
             L2 = (if has_id then advance SIZE_ID L1 else L1)
         in case quic_short_packet_number ty L2 of
              Goto_skip_packet L3 \<Rightarrow> Goto_skip_packet L3
            | Next (packet_number, L3) \<Rightarrow> Next (connection_id, packet_number, L3)))"

text \<open>Lines 203-350: the QUIC branch.\<close>

definition quic_block ::
  "('tm, 'e) latency_ops \<Rightarrow> 'tm \<Rightarrow> int \<Rightarrow> int \<Rightarrow> 'e locals \<Rightarrow> ('e locals, 'e locals) flow" where
  "quic_block ops now ip0 udp0 L =
     (case quic_header L of
        Goto_skip_packet L1 \<Rightarrow> Goto_skip_packet L1
      | Next (connection_id, packet_number, L1) \<Rightarrow>
          (let m = data (b0 L1) in
           if SIZE_LATENCY_SPIN \<le> len L1 then
             (let measurement = m (cur L1);
                  kv = make_key ops (ip_src_address m ip0) (ip_dst_address m ip0)
                         (l4_src_port m udp0) (l4_dst_port m udp0) (ip_protocol m ip0)
              in case lookup_or_create ops P_QUIC (quic_set_id ops connection_id) kv
                        (\<lambda>new_dst. make_key ops 0 new_dst (l4_src_port m udp0)
                                      (l4_dst_port m udp0) (ip_protocol m ip0))
                        (l4_dst_port m udp0) (l4_src_port m udp0) (ip_src_address m ip0)
                        (lmain L1) of
                   None \<Rightarrow> Goto_skip_packet L1
                 | Some (i, lm1) \<Rightarrow>
                     Next (L1\<lparr>session := Some i,
                               lmain := session_upd i
                                 (\<lambda>s. s\<lparr>est := update_quic_rtt_estimate ops (est s) now
                                            (l4_src_port m udp0) (init_src_port s) measurement
                                            packet_number (pkt_count s)\<rparr>) lm1\<rparr>))
           else Goto_skip_packet L1))"

text \<open>Lines 412-425: the PLUS extended header; the hop count is incremented in place.\<close>

definition plus_extended_header ::
  "('tm, 'e) latency_ops \<Rightarrow> int \<Rightarrow> 'e locals \<Rightarrow> 'e locals" where
  "plus_extended_header ops plus0 L =
     (let m = data (b0 L) in
      if plus_magic_and_flags ops m plus0 AND EXTENDED ops \<noteq> 0
           \<and> SIZE_PLUS + SIZE_PLUS_EXT_HELLO \<le> len L
      then
        (let plus_ext_hop_c0 = cur L;
             ii = PCF_len_and_II ops m plus_ext_hop_c0 AND 0x03
         in if PCF_type ops m plus_ext_hop_c0 = 1 \<and> ii = 0
            then L\<lparr>b0 := (b0 L)\<lparr>data := m(PCF_hop_c_at ops plus_ext_hop_c0 :=
                                             m (PCF_hop_c_at ops plus_ext_hop_c0) + 1)\<rparr>\<rparr>
            else L)
      else L)"

text \<open>Lines 353-429: the PLUS branch.\<close>

definition plus_block ::
  "('tm, 'e) latency_ops \<Rightarrow> 'tm \<Rightarrow> int \<Rightarrow> int \<Rightarrow> 'e locals \<Rightarrow> ('e locals, 'e locals) flow" where
  "plus_block ops now ip0 udp0 L =
     (if SIZE_PLUS \<le> len L then
        (let m = data (b0 L);
             plus0 = cur L;
             L1 = advance SIZE_PLUS L
         in if plus_magic_and_flags ops m plus0 AND MAGIC_MASK ops = MAGIC ops then
              (let kv = make_plus_key ops (ip_src_address m ip0) (ip_dst_address m ip0)
                          (l4_src_port m udp0) (l4_dst_port m udp0) (ip_protocol m ip0)
                          (plus_CAT ops m plus0)
               in case lookup_or_create ops P_PLUS (plus_set_cat ops (plus_CAT ops m plus0)) kv
                         (\<lambda>new_dst. make_plus_key ops 0 new_dst (l4_src_port m udp0)
                                       (l4_dst_port m udp0) (ip_protocol m ip0)
                                       (plus_CAT ops m plus0))
                         (l4_dst_port m udp0) (l4_src_port m udp0) (ip_src_address m ip0)
                         (lmain L1) of
                    None \<Rightarrow> Goto_skip_packet L1
                  | Some (i, lm1) \<Rightarrow>
                      Next (plus_extended_header ops plus0
                        (L1\<lparr>session := Some i,
                            lmain := session_upd i
                              (\<lambda>s. s\<lparr>est := update_plus_rtt_estimate ops (est s) now
                                         (l4_src_port m udp0) (init_src_port s)
                                         (clib_net_to_host_u32 (plus_PSN ops m plus0))
                                         (clib_net_to_host_u32 (plus_PSE ops m plus0))
                                         (clib_net_to_host_u64 (plus_CAT ops m plus0))
                                         (pkt_count s)\<rparr>) lm1\<rparr>)))
            else Next L1)
      else Next L)"

text \<open>Lines 432-508: the TCP branch.\<close>

definition tcp_block ::
  "('tm, 'e) latency_ops \<Rightarrow> 'tm \<Rightarrow> int \<Rightarrow> int \<Rightarrow> 'e locals \<Rightarrow> ('e locals, 'e locals) flow" where
  "tcp_block ops now ip0 tcp0 L =
     (let m = data (b0 L);
          L1 = (advance SIZE_TCP L)\<lparr>is_udp := False\<rparr>;
          (parse_ret, tsval, tsecr) = tcp_options_parse_mod ops m tcp0
      in if parse_ret \<noteq> 0 then Goto_skip_packet L1
         else
           (let make_measurement = \<not> (tcp_syn m tcp0 \<and> tcp_ack m tcp0);
                measurement = drop_bit TCP_LATENCY_SHIFT
                                (tcp_data_offset_and_reserved m tcp0 AND TCP_LATENCY_MASK);
                kv = make_key ops (ip_src_address m ip0) (ip_dst_address m ip0)
                       (l4_src_port m tcp0) (l4_dst_port m tcp0) (ip_protocol m ip0)
            in case lookup_or_create ops P_TCP (\<lambda>e. e) kv
                      (\<lambda>new_dst. make_key ops 0 new_dst (l4_src_port m tcp0)
                                    (l4_dst_port m tcp0) (ip_protocol m ip0))
                      (l4_dst_port m tcp0) (l4_src_port m tcp0) (ip_src_address m ip0)
                      (lmain L1) of
                 None \<Rightarrow> Goto_skip_packet L1
               | Some (i, lm1) \<Rightarrow>
                   Next (L1\<lparr>session := Some i,
                             lmain := (if make_measurement then
                                session_upd i
                                  (\<lambda>s. s\<lparr>est := update_tcp_rtt_estimate ops (est s) now
                                             (l4_src_port m tcp0) (init_src_port s) measurement
                                             tsval tsecr (pkt_count s)
                                             (clib_net_to_host_u32 (tcp_seq_number m tcp0))\<rparr>) lm1
                                else lm1)\<rparr>)))"

text \<open>
  Lines 511-564: count the packet, translate the addresses, recompute the checksums,
  re-arm the timer and write the trace record. \<open>l4\<close> is \<open>udp0\<close> or \<open>tcp0\<close>, whichever
  the branch taken has set.
\<close>

definition rewrite_and_trace ::
  "('tm, 'e) latency_ops \<Rightarrow> bool \<Rightarrow> int \<Rightarrow> int \<Rightarrow> 'e locals \<Rightarrow> 'e locals" where
  "rewrite_and_trace ops node_trace ip0 l4 L =
     (case session L of
        None \<Rightarrow> L
      | Some i \<Rightarrow>
          (let lm1 = session_upd i (\<lambda>s. s\<lparr>pkt_count := pkt_count s + 1\<rparr>) (lmain L);
               s = session_pool lm1 i;
               (ok, m1) = ip_nat_translation ops (data (b0 L)) ip0 (init_src_ip s) (new_dst_ip s);
               L1 = L\<lparr>b0 := (b0 L)\<lparr>data := m1\<rparr>, lmain := lm1\<rparr>
           in if \<not> ok then L1
              else
                (let ck = (if is_udp L then udp_checksum_at l4 else tcp_checksum_at l4);
                     b1 = (b0 L1)\<lparr>data := wr16 m1 ck 0\<rparr>;
                     b2 = b1\<lparr>data := wr16 (data b1) ck (ip4_tcp_udp_compute_checksum ops b1 ip0)\<rparr>;
                     b3 = b2\<lparr>data := wr16 (data b2) (ip_checksum_at ip0)
                                      (ip4_header_checksum ops (data b2) ip0)\<rparr>;
                     lm2 = (case state s of
                              LATENCY_STATE_ACTIVE \<Rightarrow> update_timer i TIMEOUT lm1
                            | LATENCY_STATE_ERROR \<Rightarrow> lm1);
                     tr = (if node_trace \<and> is_traced b3 then
                             Some \<lparr>t_src_port = clib_net_to_host_u16 (l4_src_port (data b3) l4),
                                   t_dst_port = clib_net_to_host_u16 (l4_dst_port (data b3) l4),
                                   t_new_src_ip = clib_net_to_host_u32 (ip_src_address (data b3) ip0),
                                   t_new_dst_ip = clib_net_to_host_u32 (ip_dst_address (data b3) ip0),
                                   t_type = p_type (session_pool lm2 i),
                                   t_pkt_count = pkt_count (session_pool lm2 i)\<rparr>
                           else None)
                 in L1\<lparr>b0 := b3, lmain := lm2, rewritten := True, trace := tr\<rparr>)))"

text \<open>The label \<open>skip_packet\<close>, lines 567-568.\<close>

definition skip_packet :: "'e locals \<Rightarrow> 'e locals" where
  "skip_packet L = L\<lparr>b0 := vlib_buffer_advance (b0 L) (- uint (total_advance L))\<rparr>"

text \<open>Lines 192-509: the dispatch on the IP protocol, after the IPv6 check.\<close>

definition inspect ::
  "('tm, 'e) latency_ops \<Rightarrow> 'tm \<Rightarrow> int \<Rightarrow> 'e locals \<Rightarrow> ('e locals, 'e locals) flow" where
  "inspect ops now ip0 L =
     (let m = data (b0 L); l4 = cur L in
      if ip_protocol m ip0 = UDP_PROTOCOL \<and> SIZE_UDP \<le> len L then
        (let L1 = (advance SIZE_UDP L)\<lparr>is_udp := True\<rparr> in
         if is_quic ops (l4_src_port m l4) (l4_dst_port m l4) \<and> SIZE_QUIC_MIN \<le> len L1
         then quic_block ops now ip0 l4 L1
         else plus_block ops now ip0 l4 L1)
      else if ip_protocol m ip0 = TCP_PROTOCOL \<and> SIZE_TCP \<le> len L then
        tcp_block ops now ip0 l4 L
      else Next L)"

text \<open>
  One iteration of the packet loop, lines 151-573, from state \<open>lm\<close> on buffer \<open>b\<close>.
  \<open>now_exp\<close> is the clock reading of line 152 and \<open>now\<close> the one the estimator is given;
  \<open>node_trace\<close> is the node's \<open>VLIB_NODE_FLAG_TRACE\<close>.
\<close>

definition latency_node_packet ::
  "('tm, 'e) latency_ops \<Rightarrow> bool \<Rightarrow> 'tm \<Rightarrow> 'tm \<Rightarrow> 'e latency_main_t \<Rightarrow> vlib_buffer_t \<Rightarrow> 'e locals" where
  "latency_node_packet ops node_trace now_exp now lm b =
     (let L = \<lparr>b0 = b, total_advance = 0, is_udp = True, session = None, next0 = IP4_LOOKUP,
               lmain = expire_timers ops now_exp lm, rewritten = False, trace = None\<rparr>
      in if SIZE_IP4 \<le> len L then
           (let ip0 = cur L;
                L1 = advance SIZE_IP4 L
            in if ip_version_and_header_length (data b) ip0 AND 0xF0 = 0x60 then skip_packet L1
               else
                 (case inspect ops now ip0 L1 of
                    Goto_skip_packet L2 \<Rightarrow> skip_packet L2
                  | Next L2 \<Rightarrow> skip_packet (rewrite_and_trace ops node_trace ip0 (cur L1) L2)))
         else L)"

text \<open>
  \<open>latency_node_fn\<close>: the buffers of the frame in order, each with the two clock
  readings of its iteration; every buffer is enqueued to \<open>next0\<close>. The result is the
  state after the frame and the buffers handed on.
\<close>

fun latency_node_fn ::
  "('tm, 'e) latency_ops \<Rightarrow> bool \<Rightarrow> 'e latency_main_t \<Rightarrow> ('tm \<times> 'tm \<times> vlib_buffer_t) list
     \<Rightarrow> 'e latency_main_t \<times> (vlib_buffer_t \<times> latency_next_t) list" where
  "latency_node_fn ops node_trace lm [] = (lm, [])"
| "latency_node_fn ops node_trace lm ((now_exp, now, b) # frame) =
     (let L = latency_node_packet ops node_trace now_exp now lm b;
          (lm', to_next) = latency_node_fn ops node_trace (lmain L) frame
      in (lm', (b0 L, next0 L) # to_next))"

section \<open>A reference configuration\<close>

text \<open>
  The theorems about the node function hold for every choice of the helpers it is given.
  To run it on concrete packets the helpers are fixed here, as the specification
  describes them. Clock readings are in milliseconds.
\<close>

text \<open>
  Modelled from the spec: the estimators (latency.h) work on the estimator storage of the
  session only. Their arithmetic is no part of node.c; the reference estimators keep the
  connection id and CAT node.c stores, count their calls and keep the packet ordinal of
  the last call.
\<close>

record ref_est =
  est_id :: u64
  est_cat :: u64
  est_calls :: nat
  est_ordinal :: u32

definition ref_estimate :: "ref_est \<Rightarrow> u32 \<Rightarrow> ref_est" where
  "ref_estimate e n = e\<lparr>est_calls := Suc (est_calls e), est_ordinal := n\<rparr>"

text \<open>
  Modelled from the spec: a flow is QUIC when either UDP port equals the configured
  QUIC port, 4433 here.
\<close>

definition ref_is_quic :: "u16 \<Rightarrow> u16 \<Rightarrow> bool" where
  "ref_is_quic src_port dst_port =
     (clib_net_to_host_u16 src_port = 4433 \<or> clib_net_to_host_u16 dst_port = 4433)"

text \<open>
  Modelled from the spec: \<open>make_key\<close> (latency.h) gives a 64-bit value canonicalising
  (src_ip, dst_ip, src_port, dst_port, ip_protocol); the specification does not give
  the bit layout, taken here as the two addresses folded into 32 bits, the two ports
  into 16 bits, and the protocol. \<open>make_plus_key\<close> folds the CAT into that key.
\<close>

definition ref_make_key :: "u32 \<Rightarrow> u32 \<Rightarrow> u16 \<Rightarrow> u16 \<Rightarrow> u8 \<Rightarrow> u64" where
  "ref_make_key src_ip dst_ip src_p dst_p protocol =
     push_bit 32 (ucast (src_ip XOR dst_ip)) OR push_bit 16 (ucast (src_p XOR dst_p))
       OR ucast protocol"

definition ref_make_plus_key :: "u32 \<Rightarrow> u32 \<Rightarrow> u16 \<Rightarrow> u16 \<Rightarrow> u8 \<Rightarrow> u64 \<Rightarrow> u64" where
  "ref_make_plus_key src_ip dst_ip src_p dst_p protocol cat =
     ref_make_key src_ip dst_ip src_p dst_p protocol XOR cat"

text \<open>
  Modelled from the spec: the destination map is a flat per-port table; here port 80 is
  bound to the backend 192.168.1.10 (the address as it lies in the header) and no other
  port is.
\<close>

definition ref_get_new_dst :: "u16 \<Rightarrow> u32" where
  "ref_get_new_dst dst_port = (if clib_net_to_host_u16 dst_port = 80 then 0x0A01A8C0 else 0)"

text \<open>
  Modelled from the spec: TCP option parsing (\<open>tcp_options_parse_mod\<close>, latency.h) reads
  the options after the 20-byte header for the timestamp option and rejects an
  ill-formed option length or an option that overruns the header. \<open>tcp_options_scan\<close>
  reads the options from the option bytes, at most one per byte of its first argument;
  \<open>None\<close> is the rejection.
\<close>

definition be32 :: "u8 list \<Rightarrow> u32" where
  "be32 bs = foldl (\<lambda>acc x. push_bit 8 acc OR ucast x) 0 (take 4 bs)"

primrec tcp_options_scan :: "u8 list \<Rightarrow> u8 list \<Rightarrow> u32 \<times> u32 \<Rightarrow> (u32 \<times> u32) option" where
  "tcp_options_scan [] opts ts = Some ts"
| "tcp_options_scan (f # fuel) opts ts =
     (case opts of
        [] \<Rightarrow> Some ts
      | kind # rest \<Rightarrow>
          if kind = 0 then Some ts
          else if kind = 1 then tcp_options_scan fuel rest ts
          else
            (case rest of
               [] \<Rightarrow> None
             | opt_len # body \<Rightarrow>
                 if unat opt_len < 2 \<or> length opts < unat opt_len then None
                 else tcp_options_scan fuel (drop (unat opt_len) opts)
                        (if kind = 8 \<and> opt_len = 10 then (be32 body, be32 (drop 4 body)) else ts)))"

definition ref_tcp_options_parse_mod :: "mem \<Rightarrow> int \<Rightarrow> int \<times> u32 \<times> u32" where
  "ref_tcp_options_parse_mod m tcp0 =
     (let doff = unat (drop_bit 4 (tcp_data_offset_and_reserved m tcp0)) in
      if doff < 5 then (- 1, 0, 0)
      else
        (let opts = map (\<lambda>k. m (tcp0 + 20 + int k)) [0..<4 * doff - 20] in
         case tcp_options_scan opts opts (0, 0) of
           None \<Rightarrow> (- 1, 0, 0)
         | Some (tsval, tsecr) \<Rightarrow> (0, tsval, tsecr)))"

text \<open>
  Modelled from the spec: \<open>ip_nat_translation\<close> (latency.h). Forward direction (the
  source address is the session's \<open>init_src_ip\<close>): the destination becomes the backend.
  Reverse direction (the packet comes from the backend): the source becomes the
  destination address found in the header and the destination becomes \<open>init_src_ip\<close>.
  Otherwise the packet is spurious and the header is left alone.
\<close>

definition ref_ip_nat_translation :: "mem \<Rightarrow> int \<Rightarrow> u32 \<Rightarrow> u32 \<Rightarrow> bool \<times> mem" where
  "ref_ip_nat_translation m ip0 init_src new_dst =
     (if ip_src_address m ip0 = init_src then (True, wr32 m (ip0 + 16) new_dst)
      else if ip_src_address m ip0 = new_dst
      then (True, wr32 (wr32 m (ip0 + 12) (ip_dst_address m ip0)) (ip0 + 16) init_src)
      else (False, m))"

text \<open>
  Modelled from the spec: the checksums are the standard one's-complement sums, of the
  20-byte IPv4 header and of the pseudo-header and transport segment.
\<close>

definition csum_add :: "u16 \<Rightarrow> u16 \<Rightarrow> u16" where
  "csum_add a b = (let s = unat a + unat b in of_nat (s mod 65536 + s div 65536))"

definition csum_words :: "mem \<Rightarrow> int \<Rightarrow> nat \<Rightarrow> u16" where
  "csum_words m a n = foldl csum_add 0 (map (\<lambda>k. rd16 m (a + 2 * int k)) [0..<n])"

definition ref_ip4_header_checksum :: "mem \<Rightarrow> int \<Rightarrow> u16" where
  "ref_ip4_header_checksum m ip0 = NOT (csum_words (wr16 m (ip_checksum_at ip0) 0) ip0 10)"

definition ref_ip4_tcp_udp_compute_checksum :: "vlib_buffer_t \<Rightarrow> int \<Rightarrow> u16" where
  "ref_ip4_tcp_udp_compute_checksum b ip0 =
     (let m = data b;
          n = unat (clib_net_to_host_u16 (rd16 m (ip0 + 2))) - 20;
          m' = (if odd n then m(ip0 + 20 + int n := 0) else m)
      in NOT (csum_add (csum_words m (ip0 + 12) 4)
               (csum_add (push_bit 8 (ucast (ip_protocol m ip0)))
                 (csum_add (clib_net_to_host_u16 (of_nat n))
                   (csum_words m' (ip0 + 20) ((n + 1) div 2))))))"

text \<open>
  Modelled from the spec: the PLUS header (plus_packet.h) is 20 bytes: one byte of magic
  and flags (the high bits are the magic, taken here as the high nibble 0xD; the low
  bits include the EXTENDED flag, taken as bit 0), the 4-byte PSN, the 4-byte PSE, the
  8-byte CAT, and three more bytes. The hop-count extension header that follows is the
  three bytes PCF_type, PCF_len_and_II and PCF_hop_c.
\<close>

definition ref_ops :: "(nat, ref_est) latency_ops" where
  "ref_ops =
     \<lparr>time_to_ticks = (\<lambda>now. now div 100),
      is_quic = ref_is_quic,
      make_key = ref_make_key,
      make_plus_key = ref_make_plus_key,
      get_new_dst = ref_get_new_dst,
      est_alloc = (\<lambda>p. \<lparr>est_id = 0, est_cat = 0, est_calls = 0, est_ordinal = 0\<rparr>),
      quic_set_id = (\<lambda>v e. e\<lparr>est_id := v\<rparr>),
      plus_set_cat = (\<lambda>v e. e\<lparr>est_cat := v\<rparr>),
      update_quic_rtt_estimate = (\<lambda>e now src_port init_src_port measurement pn n. ref_estimate e n),
      update_plus_rtt_estimate = (\<lambda>e now src_port init_src_port psn pse cat n. ref_estimate e n),
      update_tcp_rtt_estimate =
        (\<lambda>e now src_port init_src_port measurement tsval tsecr n seq. ref_estimate e n),
      tcp_options_parse_mod = ref_tcp_options_parse_mod,
      ip_nat_translation = ref_ip_nat_translation,
      ip4_tcp_udp_compute_checksum = ref_ip4_tcp_udp_compute_checksum,
      ip4_header_checksum = ref_ip4_header_checksum,
      plus_magic_and_flags = (\<lambda>m plus0. ucast (m plus0)),
      MAGIC_MASK = 0xF0,
      MAGIC = 0xD0,
      EXTENDED = 0x01,
      plus_PSN = (\<lambda>m plus0. rd32 m (plus0 + 1)),
      plus_PSE = (\<lambda>m plus0. rd32 m (plus0 + 5)),
      plus_CAT = (\<lambda>m plus0. rd64 m (plus0 + 9)),
      PCF_type = (\<lambda>m ext. m ext),
      PCF_len_and_II = (\<lambda>m ext. m (ext + 1)),
      PCF_hop_c_at = (\<lambda>ext. ext + 2)\<rparr>"

text \<open>A packet given by its bytes, cursor at its first byte, and the empty plugin state.\<close>

definition mem_of :: "u8 list \<Rightarrow> mem" where
  "mem_of bs a = (if 0 \<le> a \<and> a < int (length bs) then bs ! nat a else 0)"

definition buffer_of :: "u8 list \<Rightarrow> vlib_buffer_t" where
  "buffer_of bs = \<lparr>current_data = 0, current_length = of_nat (length bs), data = mem_of bs,
                   is_traced = False\<rparr>"

definition lm_empty :: "ref_est latency_main_t" where
  "lm_empty =
     \<lparr>session_pool = (\<lambda>i. \<lparr>index = 0, p_type = P_TCP, key = 0, key_reverse = 0,
                            init_src_port = 0, init_src_ip = 0, new_dst_ip = 0, pkt_count = 0,
                            state = LATENCY_STATE_ACTIVE, timer_expiry = 0,
                            timer_arms = 0, est = \<lparr>est_id = 0, est_cat = 0, est_calls = 0, est_ordinal = 0\<rparr>\<rparr>),
      pool_len = 0, pool_max = 1024, pool_free = (\<lambda>i. False),
      session_table = Map.empty, wheel_tick = 0\<rparr>"

text \<open>
  The TCP SYN of the first end-to-end scenario: 10.0.0.1:5000 to 10.0.0.2:80, 40 bytes.
\<close>

definition tcp_syn_packet :: "u8 list" where
  "tcp_syn_packet =
     [0x45, 0, 0, 40, 0, 0, 0, 0, 64, 6, 0, 0, 10, 0, 0, 1, 10, 0, 0, 2,
      0x13, 0x88, 0, 80, 0, 0, 0, 1, 0, 0, 0, 0, 0x50, 0x02, 0xFF, 0xFF, 0, 0, 0, 0]"

text \<open>An IPv6 packet, and the SYN above with version nibble 5 instead of 4.\<close>

definition ipv6_packet :: "u8 list" where
  "ipv6_packet =
     [0x60, 0, 0, 0, 0, 0, 6, 64, 0x20, 1, 0x0d, 0xb8, 0, 0, 0, 0, 0, 0, 0, 0,
      0, 0, 0, 1, 0x20, 1, 0x0d, 0xb8, 0, 0, 0, 0, 0, 0, 0, 0, 0, 0, 0, 2]"

definition version5_packet :: "u8 list" where
  "version5_packet =
     [0x55, 0, 0, 40, 0, 0, 0, 0, 64, 6, 0, 0, 10, 0, 0, 1, 10, 0, 0, 2,
      0x13, 0x88, 0, 80, 0, 0, 0, 1, 0, 0, 0, 0, 0x50, 0x02, 0xFF, 0xFF, 0, 0, 0, 0]"

text \<open>
  The same flow's SYN+ACK, and a segment of the flow whose data offset announces four
  option bytes that begin a ten-byte timestamp option.
\<close>

definition tcp_syn_ack_packet :: "u8 list" where
  "tcp_syn_ack_packet =
     [0x45, 0, 0, 40, 0, 0, 0, 0, 64, 6, 0, 0, 10, 0, 0, 1, 10, 0, 0, 2,
      0x13, 0x88, 0, 80, 0, 0, 0, 1, 0, 0, 0, 1, 0x50, 0x12, 0xFF, 0xFF, 0, 0, 0, 0]"

definition tcp_bad_options_packet :: "u8 list" where
  "tcp_bad_options_packet =
     [0x45, 0, 0, 44, 0, 0, 0, 0, 64, 6, 0, 0, 10, 0, 0, 1, 10, 0, 0, 2,
      0x13, 0x88, 0, 80, 0, 0, 0, 2, 0, 0, 0, 1, 0x60, 0x10, 0xFF, 0xFF, 0, 0, 0, 0,
      8, 10, 0, 0]"


text \<open>
  A UDP datagram from port 4433 to port 80 whose payload is three bytes, the first with
  the long-header bit set: a QUIC long header cut off after its third byte.
\<close>

definition quic_long_truncated_packet :: "u8 list" where
  "quic_long_truncated_packet =
     [0x45, 0, 0, 31, 0, 0, 0, 0, 64, 17, 0, 0, 10, 0, 0, 1, 10, 0, 0, 2,
      0x11, 0x51, 0, 80, 0, 11, 0, 0,
      0x80, 1, 2]"

text \<open>
  A PLUS packet from port 5000 to port 80 with the EXTENDED flag and a hop-count
  extension header (PCF_type 1, II 0, hop count 3) as its last three bytes; and the
  same packet followed by twenty bytes of payload.
\<close>

definition plus_hop_packet :: "u8 list" where
  "plus_hop_packet =
     [0x45, 0, 0, 51, 0, 0, 0, 0, 64, 17, 0, 0, 10, 0, 0, 1, 10, 0, 0, 2,
      0x13, 0x88, 0, 80, 0, 31, 0, 0,
      0xD1, 0, 0, 0, 1, 0, 0, 0, 0, 0, 0, 0, 0, 0, 0, 0, 0xAA, 0, 0, 0,
      1, 0x04, 3]"

definition plus_hop_packet_padded :: "u8 list" where
  "plus_hop_packet_padded =
     [0x45, 0, 0, 71, 0, 0, 0, 0, 64, 17, 0, 0, 10, 0, 0, 1, 10, 0, 0, 2,
      0x13, 0x88, 0, 80, 0, 51, 0, 0,
      0xD1, 0, 0, 0, 1, 0, 0, 0, 0, 0, 0, 0, 0, 0, 0, 0, 0xAA, 0, 0, 0,
      1, 0x04, 3,
      0, 0, 0, 0, 0, 0, 0, 0, 0, 0, 0, 0, 0, 0, 0, 0, 0, 0, 0, 0]"

text \<open>
  More segments around the flow of the SYN: an ACK of the same flow; a SYN to port 81,
  which has no backend; a segment that carries the session's reverse key (source
  0.0.0.0, destination the backend) and so is neither forward nor reverse; and the SYN
  of a second client, 10.0.0.3, with the same ports.
\<close>

definition tcp_ack_packet :: "u8 list" where
  "tcp_ack_packet =
     [0x45, 0, 0, 40, 0, 0, 0, 0, 64, 6, 0, 0, 10, 0, 0, 1, 10, 0, 0, 2,
      0x13, 0x88, 0, 80, 0, 0, 0, 2, 0, 0, 0, 1, 0x50, 0x10, 0xFF, 0xFF, 0, 0, 0, 0]"

definition tcp_unknown_port_packet :: "u8 list" where
  "tcp_unknown_port_packet =
     [0x45, 0, 0, 40, 0, 0, 0, 0, 64, 6, 0, 0, 10, 0, 0, 1, 10, 0, 0, 2,
      0x13, 0x88, 0, 81, 0, 0, 0, 1, 0, 0, 0, 0, 0x50, 0x02, 0xFF, 0xFF, 0, 0, 0, 0]"


definition tcp_syn_other_client_packet :: "u8 list" where
  "tcp_syn_other_client_packet =
     [0x45, 0, 0, 40, 0, 0, 0, 0, 64, 6, 0, 0, 10, 0, 0, 3, 10, 0, 0, 2,
      0x13, 0x88, 0, 80, 0, 0, 0, 1, 0, 0, 0, 0, 0x50, 0x02, 0xFF, 0xFF, 0, 0, 0, 0]"



text \<open>
  The SYN+ACK with the unparsable options of \<open>tcp_bad_options_packet\<close>, and the SYN+ACK
  of the second client.
\<close>

definition tcp_syn_ack_bad_options_packet :: "u8 list" where
  "tcp_syn_ack_bad_options_packet =
     [0x45, 0, 0, 44, 0, 0, 0, 0, 64, 6, 0, 0, 10, 0, 0, 1, 10, 0, 0, 2,
      0x13, 0x88, 0, 80, 0, 0, 0, 1, 0, 0, 0, 1, 0x60, 0x12, 0xFF, 0xFF, 0, 0, 0, 0,
      8, 10, 0, 0]"

definition tcp_syn_ack_other_client_packet :: "u8 list" where
  "tcp_syn_ack_other_client_packet =
     [0x45, 0, 0, 40, 0, 0, 0, 0, 64, 6, 0, 0, 10, 0, 0, 3, 10, 0, 0, 2,
      0x13, 0x88, 0, 80, 0, 0, 0, 1, 0, 0, 0, 1, 0x50, 0x12, 0xFF, 0xFF, 0, 0, 0, 0]"

text \<open>
  An exhausted pool: the state the SYN leaves when it is the first packet and the pool
  was sized to one slot.
\<close>

definition lm_full :: "ref_est latency_main_t" where
  "lm_full = fst (latency_node_fn ref_ops False (lm_empty\<lparr>pool_max := 1\<rparr>)
                    [(0, 0, buffer_of tcp_syn_packet)])"





section \<open>Predicates used in the statements and proofs\<close>

text \<open>
  The cursor of the iteration's buffer is where it was on entry plus \<open>total_advance\<close>,
  and \<open>total_advance\<close> is at most \<open>k\<close>.
\<close>

definition cursor_ok :: "vlib_buffer_t \<Rightarrow> 'e locals \<Rightarrow> bool" where
  "cursor_ok b L =
     (current_data (b0 L) = current_data b + ucast (total_advance L)
      \<and> current_length (b0 L) = current_length b - ucast (total_advance L))"

definition adv_ok :: "vlib_buffer_t \<Rightarrow> int \<Rightarrow> 'e locals \<Rightarrow> bool" where
  "adv_ok b k L = (cursor_ok b L \<and> uint (total_advance L) \<le> k)"


text \<open>
  The state session creation leaves (lines 319-344 and their two copies) when the pool
  is not exhausted, written out: the new session sits in the slot the pool hands out,
  with \<open>pkt_count\<close> 1 and its timer started, and the table holds its two keys.
\<close>

definition created_state ::
  "latency_protocol \<Rightarrow> 'e \<Rightarrow> u64 \<Rightarrow> u64 \<Rightarrow> u16 \<Rightarrow> u32 \<Rightarrow> u32 \<Rightarrow> 'e latency_main_t
     \<Rightarrow> 'e latency_main_t" where
  "created_state p e kv kv_reverse src_port src_ip new_dst lm =
     lm\<lparr>session_pool := (session_pool lm)
            (pool_get lm := \<lparr>index = pool_get lm, p_type = p, key = kv, key_reverse = kv_reverse,
                              init_src_port = src_port, init_src_ip = src_ip, new_dst_ip = new_dst,
                              pkt_count = 1, state = LATENCY_STATE_ACTIVE,
                              timer_expiry = wheel_tick lm + TIMEOUT, timer_arms = 1,
                              est = e\<rparr>),
        pool_len := max (pool_len lm) (Suc (pool_get lm)),
        pool_free := (pool_free lm)(pool_get lm := False),
        session_table := (session_table lm)(kv \<mapsto> pool_get lm, kv_reverse \<mapsto> pool_get lm)\<rparr>"

text \<open>
  \<open>est_only i lm lm'\<close>: the states differ at most in the estimator storage of session
  \<open>i\<close>. \<open>bumped i lm lm'\<close>: they differ in that \<open>pkt_count\<close> of session \<open>i\<close> is one
  more, and at most in its estimator storage and timer besides.
  \<open>overrun i kv lm lm'\<close>: the pool and every slot but \<open>i\<close> are as they were, and the
  table resolves \<open>kv\<close>.
\<close>

definition est_only :: "nat \<Rightarrow> 'e latency_main_t \<Rightarrow> 'e latency_main_t \<Rightarrow> bool" where
  "est_only i lm lm' = (lm' = session_upd i (\<lambda>s. s\<lparr>est := est (session_pool lm' i)\<rparr>) lm)"

definition bumped :: "nat \<Rightarrow> 'e latency_main_t \<Rightarrow> 'e latency_main_t \<Rightarrow> bool" where
  "bumped i lm lm' =
     (lm' = session_upd i (\<lambda>s. s\<lparr>pkt_count := pkt_count s + 1,
                                   timer_expiry := timer_expiry (session_pool lm' i),
                                   timer_arms := timer_arms (session_pool lm' i),
                                   est := est (session_pool lm' i)\<rparr>) lm)"

definition overrun :: "nat \<Rightarrow> u64 \<Rightarrow> 'e latency_main_t \<Rightarrow> 'e latency_main_t \<Rightarrow> bool" where
  "overrun i kv lm lm' =
     (pool_len lm' = pool_len lm \<and> pool_max lm' = pool_max lm \<and> pool_free lm' = pool_free lm
      \<and> wheel_tick lm' = wheel_tick lm \<and> session_table lm' kv \<noteq> None
      \<and> (\<forall>j. j \<noteq> i \<longrightarrow> session_pool lm' j = session_pool lm j))"

text \<open>
  The key node.c builds for a packet inspected as protocol \<open>p\<close> from the given
  addresses: \<open>make_plus_key\<close> with the CAT for PLUS, \<open>make_key\<close> otherwise. The ports
  and the IP protocol are the packet's.
\<close>

definition key_of ::
  "('tm, 'e) latency_ops \<Rightarrow> mem \<Rightarrow> int \<Rightarrow> int \<Rightarrow> int \<Rightarrow> latency_protocol \<Rightarrow> u32 \<Rightarrow> u32 \<Rightarrow> u64" where
  "key_of ops m ip0 l4 plus0 p src_ip dst_ip =
     (if p = P_PLUS
      then make_plus_key ops src_ip dst_ip (l4_src_port m l4) (l4_dst_port m l4) (ip_protocol m ip0)
             (plus_CAT ops m plus0)
      else make_key ops src_ip dst_ip (l4_src_port m l4) (l4_dst_port m l4) (ip_protocol m ip0))"

text \<open>
  \<open>resolved\<close>: session \<open>i\<close> was found under the packet's forward key; or there was none
  and it was created for the backend of the destination port; or there was none, the
  pool was exhausted, and the fields of a new session were stored through the handle
  one past the pool.
\<close>

definition resolved ::
  "('tm, 'e) latency_ops \<Rightarrow> mem \<Rightarrow> int \<Rightarrow> int \<Rightarrow> int \<Rightarrow> latency_protocol \<Rightarrow> 'e latency_main_t
     \<Rightarrow> nat \<Rightarrow> 'e latency_main_t \<Rightarrow> bool" where
  "resolved ops m ip0 l4 plus0 p lm i lm' =
     ((session_table lm (key_of ops m ip0 l4 plus0 p (ip_src_address m ip0) (ip_dst_address m ip0))
         = Some i
       \<and> est_only i lm lm')
      \<or> (session_table lm (key_of ops m ip0 l4 plus0 p (ip_src_address m ip0) (ip_dst_address m ip0))
            = None
          \<and> get_new_dst ops (l4_dst_port m l4) \<noteq> 0
          \<and> \<not> pool_exhausted lm
          \<and> i = pool_get lm
          \<and> lm' = created_state p (est (session_pool lm' i))
                     (key_of ops m ip0 l4 plus0 p (ip_src_address m ip0) (ip_dst_address m ip0))
                     (key_of ops m ip0 l4 plus0 p 0 (get_new_dst ops (l4_dst_port m l4)))
                     (l4_src_port m l4) (ip_src_address m ip0) (get_new_dst ops (l4_dst_port m l4))
                     lm)
      \<or> (session_table lm (key_of ops m ip0 l4 plus0 p (ip_src_address m ip0) (ip_dst_address m ip0))
            = None
          \<and> get_new_dst ops (l4_dst_port m l4) \<noteq> 0
          \<and> pool_exhausted lm
          \<and> i = pool_len lm
          \<and> overrun i (key_of ops m ip0 l4 plus0 p (ip_src_address m ip0) (ip_dst_address m ip0))
                lm lm'))"

text \<open>\<open>quiet L L'\<close>: from \<open>L\<close> to \<open>L'\<close> only the cursor and \<open>is_udp\<close> may have changed.\<close>

definition quiet :: "'e locals \<Rightarrow> 'e locals \<Rightarrow> bool" where
  "quiet L L' =
     (session L' = session L \<and> lmain L' = lmain L \<and> data (b0 L') = data (b0 L)
      \<and> is_traced (b0 L') = is_traced (b0 L) \<and> rewritten L' = rewritten L
      \<and> trace L' = trace L \<and> next0 L' = next0 L)"

text \<open>
  Over a frame: the number of packets that reach line 516 with \<open>session\<close> pointing at
  slot \<open>i\<close>, and whether slot \<open>i\<close> is still in use after every timer-wheel advance of
  the frame.
\<close>

fun reached_count ::
  "('tm, 'e) latency_ops \<Rightarrow> bool \<Rightarrow> nat \<Rightarrow> 'e latency_main_t \<Rightarrow> ('tm \<times> 'tm \<times> vlib_buffer_t) list \<Rightarrow> nat" where
  "reached_count ops node_trace i lm [] = 0"
| "reached_count ops node_trace i lm ((now_exp, now, b) # frame) =
     (if session (latency_node_packet ops node_trace now_exp now lm b) = Some i then 1 else 0)
       + reached_count ops node_trace i
           (lmain (latency_node_packet ops node_trace now_exp now lm b)) frame"

fun kept ::
  "('tm, 'e) latency_ops \<Rightarrow> bool \<Rightarrow> nat \<Rightarrow> 'e latency_main_t \<Rightarrow> ('tm \<times> 'tm \<times> vlib_buffer_t) list \<Rightarrow> bool" where
  "kept ops node_trace i lm [] = True"
| "kept ops node_trace i lm ((now_exp, now, b) # frame) =
     (live (expire_timers ops now_exp lm) i
      \<and> kept ops node_trace i (lmain (latency_node_packet ops node_trace now_exp now lm b)) frame)"

section \<open>Packets as they come in\<close>

text \<open>
  The tests of node.c on a packet, stated on the buffer as it is handed to the node.
  \<open>hdr_at b k\<close> is the pointer \<open>vlib_buffer_get_current\<close> yields after the cursor has
  been advanced by \<open>k\<close> bytes in all, and \<open>bytes_after b k\<close> the \<open>current_length\<close> the
  buffer then has (computed on the 16-bit field, as the node does): the IPv4 header is
  at 0, the UDP or TCP header at 20, the QUIC or PLUS header at 28, the PLUS extension
  header at 48.
\<close>

definition hdr_at :: "vlib_buffer_t \<Rightarrow> int \<Rightarrow> int" where
  "hdr_at b k = vlib_buffer_get_current (vlib_buffer_advance b k)"

definition bytes_after :: "vlib_buffer_t \<Rightarrow> int \<Rightarrow> int" where
  "bytes_after b k = uint (current_length (vlib_buffer_advance b k))"

text \<open>
  Lines 179 and 188: the packet holds an IPv4 header and its version nibble is not 6.
  Lines 192 and 432: it is UDP, or TCP, with the transport header present. Lines
  200-201: it is on the QUIC port with the three bytes the node asks for.
\<close>

definition is_ip4 :: "vlib_buffer_t \<Rightarrow> bool" where
  "is_ip4 b = (SIZE_IP4 \<le> bytes_after b 0
               \<and> ip_version_and_header_length (data b) (hdr_at b 0) AND 0xF0 \<noteq> 0x60)"

definition is_udp_datagram :: "vlib_buffer_t \<Rightarrow> bool" where
  "is_udp_datagram b = (is_ip4 b \<and> ip_protocol (data b) (hdr_at b 0) = UDP_PROTOCOL
                        \<and> SIZE_UDP \<le> bytes_after b 20)"

definition is_tcp_segment :: "vlib_buffer_t \<Rightarrow> bool" where
  "is_tcp_segment b = (is_ip4 b \<and> ip_protocol (data b) (hdr_at b 0) = TCP_PROTOCOL
                       \<and> SIZE_TCP \<le> bytes_after b 20)"

definition on_quic_port :: "('tm, 'e) latency_ops \<Rightarrow> vlib_buffer_t \<Rightarrow> bool" where
  "on_quic_port ops b = (is_udp_datagram b
       \<and> is_quic ops (l4_src_port (data b) (hdr_at b 20)) (l4_dst_port (data b) (hdr_at b 20))
       \<and> SIZE_QUIC_MIN \<le> bytes_after b 28)"

text \<open>
  The QUIC header, lines 210-298. A long header (line 210) is advanced over without a
  length test, so its measurement byte is looked for at offset 45. In a short header
  the packet number starts after the type byte, or after the connection id when the
  \<open>HAS_ID\<close> bit is set and eight bytes are left (line 245); its size is given by the
  low bits of the type byte, 0 standing for an encoding the node does not know (line
  289). The header is complete when it is long, or when the packet number is of a
  known size and present (lines 256, 267, 278).
\<close>

definition quic_long :: "vlib_buffer_t \<Rightarrow> bool" where
  "quic_long b = (data b (hdr_at b 28) AND IS_LONG \<noteq> 0)"

definition quic_number_at :: "vlib_buffer_t \<Rightarrow> int" where
  "quic_number_at b =
     (if data b (hdr_at b 28) AND HAS_ID \<noteq> 0 \<and> SIZE_ID \<le> bytes_after b 29 then 37 else 29)"

definition quic_number_size :: "vlib_buffer_t \<Rightarrow> int" where
  "quic_number_size b =
     (let t = data b (hdr_at b 28) AND LATENCY_TYPE in
      if t = P_NUMBER_8 then SIZE_NUMBER_8
      else if t = P_NUMBER_16 then SIZE_NUMBER_16
      else if t = P_NUMBER_32 then SIZE_NUMBER_32
      else 0)"

definition quic_header_complete :: "vlib_buffer_t \<Rightarrow> bool" where
  "quic_header_complete b =
     (quic_long b
      \<or> (0 < quic_number_size b \<and> quic_number_size b \<le> bytes_after b (quic_number_at b)))"

definition quic_spin_at :: "vlib_buffer_t \<Rightarrow> int" where
  "quic_spin_at b = (if quic_long b then 45 else quic_number_at b + quic_number_size b)"

text \<open>Line 358: the PLUS magic.\<close>

definition plus_magic :: "('tm, 'e) latency_ops \<Rightarrow> vlib_buffer_t \<Rightarrow> bool" where
  "plus_magic ops b =
     (plus_magic_and_flags ops (data b) (hdr_at b 28) AND MAGIC_MASK ops = MAGIC ops)"




text \<open>
  \<open>inspected_as ops b = Some p\<close>: the packet passes every test before the session
  lookup, on the path of protocol \<open>p\<close>. \<open>flow_key\<close> is the key the node then looks up.
\<close>

definition inspected_as :: "('tm, 'e) latency_ops \<Rightarrow> vlib_buffer_t \<Rightarrow> latency_protocol option" where
  "inspected_as ops b =
     (if is_tcp_segment b then
        (if fst (tcp_options_parse_mod ops (data b) (hdr_at b 20)) = 0 then Some P_TCP else None)
      else if on_quic_port ops b then
        (if quic_header_complete b \<and> SIZE_LATENCY_SPIN \<le> bytes_after b (quic_spin_at b)
         then Some P_QUIC else None)
      else if is_udp_datagram b \<and> SIZE_PLUS \<le> bytes_after b 28 \<and> plus_magic ops b
      then Some P_PLUS else None)"


text \<open>
  The variables of the iteration \<open>k\<close> bytes into a packet that has no session yet, with
  \<open>m\<close> for the bytes of the buffer.
\<close>

definition entry :: "vlib_buffer_t \<Rightarrow> mem \<Rightarrow> 'e latency_main_t \<Rightarrow> int \<Rightarrow> bool \<Rightarrow> 'e locals" where
  "entry b m lme k u =
     \<lparr>b0 = (vlib_buffer_advance b k)\<lparr>data := m\<rparr>, total_advance = word_of_int k, is_udp = u, session = None,
      next0 = IP4_LOOKUP, lmain = lme, rewritten = False, trace = None\<rparr>"

text \<open>
  Lines 412-425 on the incoming packet: the hop count of a PLUS packet is incremented,
  and the bytes of the buffer when the iteration reaches line 511.
\<close>

definition hop_count_incremented :: "('tm, 'e) latency_ops \<Rightarrow> vlib_buffer_t \<Rightarrow> bool" where
  "hop_count_incremented ops b =
     (inspected_as ops b = Some P_PLUS
      \<and> plus_magic_and_flags ops (data b) (hdr_at b 28) AND EXTENDED ops \<noteq> 0
      \<and> SIZE_PLUS + SIZE_PLUS_EXT_HELLO \<le> bytes_after b 48
      \<and> PCF_type ops (data b) (hdr_at b 48) = 1
      \<and> PCF_len_and_II ops (data b) (hdr_at b 48) AND 0x03 = 0)"

definition data_at_rewrite :: "('tm, 'e) latency_ops \<Rightarrow> vlib_buffer_t \<Rightarrow> mem" where
  "data_at_rewrite ops b =
     (if hop_count_incremented ops b
      then (data b)(PCF_hop_c_at ops (hdr_at b 48) := data b (PCF_hop_c_at ops (hdr_at b 48)) + 1)
      else data b)"






section \<open>Loads and stores\<close>

lemma rd16_wr16_same: "rd16 (wr16 m a v) a = v"
proof -
  have "push_bit 8 (ucast (ucast (drop_bit 8 v) :: u8)) OR ucast (ucast v :: u8) = v"
    by (rule bit_word_eqI) (auto simp: bit_simps)
  then show ?thesis by (simp add: rd16_def wr16_def)
qed



section \<open>The read cursor\<close>

lemma ucast_u8_add:
  fixes ta :: u8
  assumes "0 \<le> n" "uint ta + n < 256"
  shows "(ucast (ta + word_of_int n) :: 16 word) = ucast ta + word_of_int n"
        "uint (ta + word_of_int n) = uint ta + n"
proof -
  have u: "uint (ta + word_of_int n) = uint ta + n"
  proof -
    have "n < 256" "0 \<le> uint ta + n" using uint_ge_0[of ta] assms by linarith+
    with assms have "n mod 256 = n" "(uint ta + n) mod 256 = uint ta + n" by simp_all
    then show ?thesis by (simp add: uint_word_ariths uint_word_of_int)
  qed
  show "uint (ta + word_of_int n) = uint ta + n" by (rule u)
  have "(ucast (ta + word_of_int n) :: 16 word) = word_of_int (uint (ta + word_of_int n))"
    by simp
  also have "\<dots> = word_of_int (uint ta) + word_of_int n" by (simp add: u)
  finally show "(ucast (ta + word_of_int n) :: 16 word) = ucast ta + word_of_int n" by simp
qed

lemma advance_ok:
  assumes "cursor_ok b L" "0 \<le> n" "uint (total_advance L) + n < 256"
  shows "cursor_ok b (advance n L)" "uint (total_advance (advance n L)) = uint (total_advance L) + n"
  using assms ucast_u8_add[of n "total_advance L"]
  by (simp_all add: cursor_ok_def advance_def vlib_buffer_advance_def)

lemma skip_packet_ok:
  assumes "cursor_ok b L"
  shows "current_data (b0 (skip_packet L)) = current_data b"
        "current_length (b0 (skip_packet L)) = current_length b"
  using assms by (simp_all add: cursor_ok_def skip_packet_def vlib_buffer_advance_def)


lemma adv_ok_advance:
  "adv_ok b k L \<Longrightarrow> 0 \<le> n \<Longrightarrow> k + n < 256 \<Longrightarrow> adv_ok b (k + n) (advance n L)"
  using advance_ok[of b L n] by (simp add: adv_ok_def)

lemma adv_ok_mono: "adv_ok b k L \<Longrightarrow> k \<le> k' \<Longrightarrow> adv_ok b k' L"
  by (simp add: adv_ok_def)

lemma adv_ok_same:
  "adv_ok b k L \<Longrightarrow> current_data (b0 L') = current_data (b0 L) \<Longrightarrow>
   current_length (b0 L') = current_length (b0 L) \<Longrightarrow> total_advance L' = total_advance L \<Longrightarrow>
   adv_ok b k L'"
  by (simp add: adv_ok_def cursor_ok_def)

lemma adv_ok_skip_packet:
  "adv_ok b k L \<Longrightarrow> current_data (b0 (skip_packet L)) = current_data b
     \<and> current_length (b0 (skip_packet L)) = current_length b"
  using skip_packet_ok[of b L] by (simp add: adv_ok_def)


lemma adv_ok_upd [simp]:
  "adv_ok b k (L\<lparr>session := x\<rparr>) = adv_ok b k L"
  "adv_ok b k (L\<lparr>lmain := y\<rparr>) = adv_ok b k L"
  "adv_ok b k (L\<lparr>is_udp := u\<rparr>) = adv_ok b k L"
  "adv_ok b k (L\<lparr>rewritten := r\<rparr>) = adv_ok b k L"
  "adv_ok b k (L\<lparr>trace := t\<rparr>) = adv_ok b k L"
  "adv_ok b k (L\<lparr>b0 := (b0 L)\<lparr>data := m\<rparr>\<rparr>) = adv_ok b k L"
  by (simp_all add: adv_ok_def cursor_ok_def)

lemma quic_short_packet_number_adv:
  assumes "adv_ok b 37 L"
  shows "quic_short_packet_number ty L = Goto_skip_packet L' \<Longrightarrow> adv_ok b 48 L'"
    and "quic_short_packet_number ty L = Next (pn, L') \<Longrightarrow> adv_ok b 48 L'"
proof -
  have m: "\<And>k M. adv_ok b k M \<Longrightarrow> k \<le> 48 \<Longrightarrow> adv_ok b 48 M" by (rule adv_ok_mono)
  have a: "adv_ok b 48 L" "adv_ok b 48 (advance 1 L)" "adv_ok b 48 (advance 2 L)"
    "adv_ok b 48 (advance 4 L)"
    using m[OF assms] m[OF adv_ok_advance[OF assms, of 1]] m[OF adv_ok_advance[OF assms, of 2]]
      m[OF adv_ok_advance[OF assms, of 4]] by simp_all
  show "quic_short_packet_number ty L = Goto_skip_packet L' \<Longrightarrow> adv_ok b 48 L'"
    using a by (auto simp: quic_short_packet_number_def Let_def split: if_splits)
  show "quic_short_packet_number ty L = Next (pn, L') \<Longrightarrow> adv_ok b 48 L'"
    using a by (auto simp: quic_short_packet_number_def Let_def split: if_splits)
qed

lemma quic_header_adv:
  assumes "adv_ok b 28 L"
  shows "quic_header L = Goto_skip_packet L' \<Longrightarrow> adv_ok b 48 L'"
    and "quic_header L = Next (cid, pn, L') \<Longrightarrow> adv_ok b 48 L'"
proof -
  have a1: "adv_ok b 29 (advance 1 L)" using adv_ok_advance[OF assms, of 1] by simp
  have a2: "adv_ok b 37 (advance 8 (advance 1 L))" using adv_ok_advance[OF a1, of 8] by simp
  have a3: "adv_ok b 41 (advance 4 (advance 8 (advance 1 L)))" using adv_ok_advance[OF a2, of 4] by simp
  have a4: "adv_ok b 45 (advance 4 (advance 4 (advance 8 (advance 1 L))))"
    using adv_ok_advance[OF a3, of 4] by simp
  have a4': "adv_ok b 48 (advance 4 (advance 4 (advance 8 (advance 1 L))))"
    using a4 by (rule adv_ok_mono) simp
  have a1': "adv_ok b 37 (advance 1 L)" using a1 by (rule adv_ok_mono) simp
  show "quic_header L = Goto_skip_packet L' \<Longrightarrow> adv_ok b 48 L'"
    using quic_short_packet_number_adv(1)[OF a2] quic_short_packet_number_adv(1)[OF a1']
    by (auto simp: quic_header_def Let_def split: if_splits flow.splits)
  show "quic_header L = Next (cid, pn, L') \<Longrightarrow> adv_ok b 48 L'"
    using quic_short_packet_number_adv(2)[OF a2] quic_short_packet_number_adv(2)[OF a1'] a4'
    by (auto simp: quic_header_def Let_def split: if_splits flow.splits)
qed

lemma quic_block_adv:
  assumes "adv_ok b 28 L"
  shows "quic_block ops now ip0 udp0 L = Goto_skip_packet L' \<Longrightarrow> adv_ok b 48 L'"
    and "quic_block ops now ip0 udp0 L = Next L' \<Longrightarrow> adv_ok b 48 L'"
  using quic_header_adv[OF assms]
  by (auto simp: quic_block_def Let_def split: if_splits flow.splits option.splits)

lemma plus_extended_header_adv [simp]:
  "adv_ok b k (plus_extended_header ops plus0 L) = adv_ok b k L"
  by (simp add: plus_extended_header_def Let_def)

lemma plus_block_adv:
  assumes "adv_ok b 28 L"
  shows "plus_block ops now ip0 udp0 L = Goto_skip_packet L' \<Longrightarrow> adv_ok b 48 L'"
    and "plus_block ops now ip0 udp0 L = Next L' \<Longrightarrow> adv_ok b 48 L'"
  using adv_ok_advance[OF assms, of 20] adv_ok_mono[OF assms, of 48]
  by (auto simp: plus_block_def Let_def split: if_splits option.splits)

lemma tcp_block_adv:
  assumes "adv_ok b 20 L"
  shows "tcp_block ops now ip0 tcp0 L = Goto_skip_packet L' \<Longrightarrow> adv_ok b 48 L'"
    and "tcp_block ops now ip0 tcp0 L = Next L' \<Longrightarrow> adv_ok b 48 L'"
  using adv_ok_mono[OF adv_ok_advance[OF assms, of 20], of 48]
  by (auto simp: tcp_block_def Let_def split: if_splits option.splits prod.splits)

lemma inspect_adv:
  assumes "adv_ok b 20 L"
  shows "inspect ops now ip0 L = Goto_skip_packet L' \<Longrightarrow> adv_ok b 48 L'"
    and "inspect ops now ip0 L = Next L' \<Longrightarrow> adv_ok b 48 L'"
proof -
  have u: "adv_ok b 28 ((advance 8 L)\<lparr>is_udp := True\<rparr>)"
    using adv_ok_advance[OF assms, of 8] by simp
  show "inspect ops now ip0 L = Goto_skip_packet L' \<Longrightarrow> adv_ok b 48 L'"
    using quic_block_adv(1)[OF u] plus_block_adv(1)[OF u] tcp_block_adv(1)[OF assms]
    by (auto simp: inspect_def Let_def split: if_splits)
  show "inspect ops now ip0 L = Next L' \<Longrightarrow> adv_ok b 48 L'"
    using quic_block_adv(2)[OF u] plus_block_adv(2)[OF u] tcp_block_adv(2)[OF assms]
      adv_ok_mono[OF assms, of 48]
    by (auto simp: inspect_def Let_def split: if_splits)
qed

lemma rewrite_and_trace_adv [simp]:
  "adv_ok b k (rewrite_and_trace ops node_trace ip0 l4 L) = adv_ok b k L"
  by (simp add: rewrite_and_trace_def Let_def adv_ok_def cursor_ok_def
           split: option.splits prod.splits latency_state_t.splits)

lemma initial_adv:
  "adv_ok b 0 \<lparr>b0 = b, total_advance = 0, is_udp = u, session = s, next0 = n,
               lmain = lm, rewritten = r, trace = t\<rparr>"
  by (simp add: adv_ok_def cursor_ok_def)


lemma packet_cursor:
  "current_data (b0 (latency_node_packet ops node_trace now_exp now lm b)) = current_data b
   \<and> current_length (b0 (latency_node_packet ops node_trace now_exp now lm b)) = current_length b"
proof -
  let ?L = "\<lparr>b0 = b, total_advance = 0, is_udp = True, session = None, next0 = IP4_LOOKUP,
             lmain = expire_timers ops now_exp lm, rewritten = False, trace = None\<rparr>"
  have a: "adv_ok b 20 (advance 20 ?L)"
    using adv_ok_advance[OF initial_adv, of 20] by simp
  have s: "\<And>L'. adv_ok b 48 L' \<Longrightarrow> current_data (b0 (skip_packet L')) = current_data b
     \<and> current_length (b0 (skip_packet L')) = current_length b"
    by (rule adv_ok_skip_packet)
  show ?thesis
  proof (cases "SIZE_IP4 \<le> uint (current_length b)")
    case False
    then show ?thesis by (simp add: latency_node_packet_def)
  next
    case long: True
    show ?thesis
    proof (cases "ip_version_and_header_length (data b) (vlib_buffer_get_current b) AND 0xF0 = 0x60")
      case True
      with long adv_ok_skip_packet[OF a] show ?thesis
        by (simp add: latency_node_packet_def)
    next
      case v4: False
      show ?thesis
      proof (cases "inspect ops now (vlib_buffer_get_current b) (advance 20 ?L)")
        case (Goto_skip_packet L2)
        from inspect_adv(1)[OF a this] have "adv_ok b 48 L2" .
        from adv_ok_skip_packet[OF this] long v4 Goto_skip_packet show ?thesis
          by (simp add: latency_node_packet_def)
      next
        case (Next L2)
        from inspect_adv(2)[OF a this]
        have "adv_ok b 48 (rewrite_and_trace ops node_trace (vlib_buffer_get_current b)
                 (cur (advance 20 ?L)) L2)" by simp
        from adv_ok_skip_packet[OF this] long v4 Next show ?thesis
          by (simp add: latency_node_packet_def)
      qed
    qed
  qed
qed

section \<open>Arithmetic of the cursor and of the buffer length\<close>

lemma sint_add_20:
  fixes x :: "16 word"
  shows "sint (x + 20) = sint x + 20 \<or> sint (x + 20) = sint x + 20 - 65536"
proof -
  have r: "- 32768 \<le> sint x" "sint x < 32768"
    using sint_ge[of x] sint_lt[of x] by simp_all
  have e: "sint (x + 20) = signed_take_bit 15 (sint x + 20)"
    by (simp add: sint_word_ariths)
  show ?thesis
  proof (cases "sint x + 20 < 32768")
    case True
    with r have "signed_take_bit 15 (sint x + 20) = sint x + 20"
      by (simp add: signed_take_bit_int_eq_self)
    with e show ?thesis by simp
  next
    case False
    define a where "a = sint x + 20 + 32768"
    have a: "65536 \<le> a" "a < 2 * 65536" using r False by (simp_all add: a_def)
    have "a mod 65536 = (a - 65536) mod 65536" by (simp only: minus_mod_self2)
    also have "\<dots> = a - 65536" by (rule mod_pos_pos_trivial) (use a in simp_all)
    finally have "signed_take_bit 15 (sint x + 20) = sint x + 20 - 65536"
      unfolding signed_take_bit_eq_take_bit_shift take_bit_eq_mod by (simp add: a_def)
    with e show ?thesis by simp
  qed
qed

lemma uint_len_sub:
  fixes n :: "16 word"
  assumes "k \<le> uint n" "0 \<le> k"
  shows "uint (n - word_of_int k) = uint n - k"
proof -
  have "uint n < 65536" using uint_lt2p[of n] by simp
  with assms have "uint (word_of_int k :: 16 word) = k"
    by (simp add: uint_word_of_int take_bit_int_eq_self)
  moreover from this assms have "(word_of_int k :: 16 word) \<le> n"
    unfolding word_le_def by simp
  ultimately show ?thesis using assms by (simp add: uint_sub_if')
qed

section \<open>Loads after stores\<close>

lemma rd16_wr16_other: "a \<notin> {p, p + 1} \<Longrightarrow> a + 1 \<notin> {p, p + 1} \<Longrightarrow> rd16 (wr16 m a v) p = rd16 m p"
  by (auto simp: rd16_def wr16_def)

lemma rd32_wr32_same: "rd32 (wr32 m a v) a = v"
proof -
  have "push_bit 16 (ucast (ucast (drop_bit 16 v) :: u16)) OR ucast (ucast v :: u16) = v"
    by (rule bit_word_eqI) (auto simp: bit_simps)
  then show ?thesis
    by (simp add: rd32_def wr32_def rd16_wr16_same rd16_wr16_other)
qed

lemma rd32_wr16_other:
  "a \<notin> {p, p + 1, p + 2, p + 3} \<Longrightarrow> a + 1 \<notin> {p, p + 1, p + 2, p + 3} \<Longrightarrow>
   rd32 (wr16 m a v) p = rd32 m p"
  by (auto simp: rd32_def rd16_def wr16_def)

section \<open>The session pool\<close>

lemma pool_get_not_live: "\<not> live lm (pool_get lm)"
  by (auto simp: live_def pool_get_def find_Some_iff split: option.splits)

section \<open>Unfolding the model and the reference configuration\<close>

lemmas hdr_defs = ip_version_and_header_length_def ip_protocol_def ip_checksum_at_def ip_src_address_def
  ip_dst_address_def l4_src_port_def l4_dst_port_def udp_checksum_at_def tcp_seq_number_def
  tcp_data_offset_and_reserved_def tcp_flags_def tcp_checksum_at_def tcp_syn_def tcp_ack_def

lemmas tcp_path_defs = latency_node_packet_def inspect_def tcp_block_def skip_packet_def advance_def
  vlib_buffer_advance_def Let_def split_beta lookup_or_create_def rewrite_and_trace_def

lemmas session_defs = new_session_def create_session_def update_state_def start_timer_def
  update_timer_def session_upd_def

lemmas node_defs = latency_node_packet_def inspect_def tcp_block_def quic_block_def plus_block_def
  quic_header_def quic_short_packet_number_def plus_extended_header_def rewrite_and_trace_def
  skip_packet_def advance_def lookup_or_create_def new_session_def vlib_buffer_advance_def
  vlib_buffer_get_current_def

lemmas state_defs = get_session_from_key_def create_session_def pool_get_def pool_exhausted_def
  update_state_def
  start_timer_def update_timer_def remove_session_def expire_slot_def expire_timers_def session_upd_def live_def

lemma ref_ops_simps:
  "time_to_ticks ref_ops = (\<lambda>now. now div 100)"
  "is_quic ref_ops = ref_is_quic"
  "make_key ref_ops = ref_make_key"
  "make_plus_key ref_ops = ref_make_plus_key"
  "get_new_dst ref_ops = ref_get_new_dst"
  "est_alloc ref_ops = (\<lambda>p. \<lparr>est_id = 0, est_cat = 0, est_calls = 0, est_ordinal = 0\<rparr>)"
  "quic_set_id ref_ops = (\<lambda>v e. e\<lparr>est_id := v\<rparr>)"
  "plus_set_cat ref_ops = (\<lambda>v e. e\<lparr>est_cat := v\<rparr>)"
  "update_quic_rtt_estimate ref_ops =
     (\<lambda>e now src_port init_src_port measurement pn n. ref_estimate e n)"
  "update_plus_rtt_estimate ref_ops =
     (\<lambda>e now src_port init_src_port psn pse cat n. ref_estimate e n)"
  "update_tcp_rtt_estimate ref_ops =
     (\<lambda>e now src_port init_src_port measurement tsval tsecr n seq. ref_estimate e n)"
  "tcp_options_parse_mod ref_ops = ref_tcp_options_parse_mod"
  "ip_nat_translation ref_ops = ref_ip_nat_translation"
  "ip4_tcp_udp_compute_checksum ref_ops = ref_ip4_tcp_udp_compute_checksum"
  "ip4_header_checksum ref_ops = ref_ip4_header_checksum"
  "plus_magic_and_flags ref_ops = (\<lambda>m plus0. ucast (m plus0))"
  "MAGIC_MASK ref_ops = 0xF0"
  "MAGIC ref_ops = 0xD0"
  "EXTENDED ref_ops = 0x01"
  "plus_PSN ref_ops = (\<lambda>m plus0. rd32 m (plus0 + 1))"
  "plus_PSE ref_ops = (\<lambda>m plus0. rd32 m (plus0 + 5))"
  "plus_CAT ref_ops = (\<lambda>m plus0. rd64 m (plus0 + 9))"
  "PCF_type ref_ops = (\<lambda>m ext. m ext)"
  "PCF_len_and_II ref_ops = (\<lambda>m ext. m (ext + 1))"
  "PCF_hop_c_at ref_ops = (\<lambda>ext. ext + 2)"
  by (simp_all add: ref_ops_def)

lemmas ref_defs = ref_ops_simps ref_is_quic_def ref_make_key_def ref_make_plus_key_def ref_get_new_dst_def
  ref_tcp_options_parse_mod_def ref_ip_nat_translation_def ref_estimate_def 

lemmas eval_defs = node_defs hdr_defs state_defs ref_defs rd16_def rd32_def rd64_def wr16_def wr32_def
      clib_net_to_host_u16_def clib_net_to_host_u32_def clib_net_to_host_u64_def Let_def buffer_of_def mem_of_def lm_empty_def

lemma ref_nat_forward:
  "ip_src_address m ip0 = init_src \<Longrightarrow>
     fst (ip_nat_translation ref_ops m ip0 init_src new_dst)
     \<and> ip_dst_address (snd (ip_nat_translation ref_ops m ip0 init_src new_dst)) ip0 = new_dst"
  by (simp add: ref_ops_simps ref_ip_nat_translation_def ip_dst_address_def rd32_wr32_same)

lemma upt_0_4: "[0..<4::nat] = [0, 1, 2, 3]"
  by (simp add: upt_rec)


section \<open>What one packet does to the plugin state\<close>

lemma new_session_eq:
  "\<not> pool_exhausted lm \<Longrightarrow>
   new_session ops p set_est kv kv_reverse src_port src_ip new_dst lm =
     (pool_get lm, created_state p (set_est (est_alloc ops p)) kv kv_reverse src_port src_ip new_dst lm)"
  by (simp add: new_session_def create_session_def session_upd_def update_state_def
        start_timer_def created_state_def Let_def)

lemma pool_exhausted_get: "pool_exhausted lm \<Longrightarrow> pool_get lm = pool_len lm"
  by (simp add: pool_exhausted_def pool_get_def)

lemma new_session_exhausted:
  "pool_exhausted lm \<Longrightarrow>
   fst (new_session ops p set_est kv kv_reverse src_port src_ip new_dst lm) = pool_len lm
   \<and> overrun (pool_len lm) kv lm
         (snd (new_session ops p set_est kv kv_reverse src_port src_ip new_dst lm))"
  by (simp add: new_session_def create_session_def session_upd_def update_state_def
        start_timer_def overrun_def Let_def pool_exhausted_get)

lemma overrun_upd: "overrun i kv lm lm1 \<Longrightarrow> overrun i kv lm (session_upd i f lm1)"
  by (simp add: overrun_def session_upd_def)

lemma est_only_refl: "est_only i lm lm"
  by (simp add: est_only_def session_upd_def)

lemma est_only_upd: "est_only i lm (session_upd i (\<lambda>s. s\<lparr>est := f s\<rparr>) lm)"
  by (simp add: est_only_def session_upd_def)

lemma lookup_or_create_cases:
  assumes "lookup_or_create ops p set_est kv kv_reverse dst_port src_port src_ip lm = Some (i, lm1)"
  shows "(session_table lm kv = Some i \<and> lm1 = lm)
       \<or> (session_table lm kv = None \<and> get_new_dst ops dst_port \<noteq> 0 \<and> \<not> pool_exhausted lm
            \<and> i = pool_get lm
            \<and> lm1 = created_state p (set_est (est_alloc ops p)) kv
                       (kv_reverse (get_new_dst ops dst_port)) src_port src_ip
                       (get_new_dst ops dst_port) lm)
       \<or> (session_table lm kv = None \<and> get_new_dst ops dst_port \<noteq> 0 \<and> pool_exhausted lm
            \<and> i = pool_len lm \<and> overrun i kv lm lm1)"
proof (cases "pool_exhausted lm")
  case False
  with assms show ?thesis
    by (auto simp: lookup_or_create_def get_session_from_key_def new_session_eq Let_def
             split: option.splits if_splits)
next
  case True
  note x = new_session_exhausted[OF True, of ops p set_est kv "kv_reverse (get_new_dst ops dst_port)"
      src_port src_ip "get_new_dst ops dst_port"]
  from assms x True show ?thesis
    by (auto simp: lookup_or_create_def get_session_from_key_def Let_def
             split: option.splits if_splits)
qed


lemma quiet_refl [simp]: "quiet L L"
  by (simp add: quiet_def)

lemma quiet_advance [simp]: "quiet L (advance n L') = quiet L L'"
  by (simp add: quiet_def advance_def vlib_buffer_advance_def)

lemma quiet_is_udp [simp]: "quiet L (L'\<lparr>is_udp := u\<rparr>) = quiet L L'"
  "quiet (L\<lparr>is_udp := u\<rparr>) L' = quiet L L'"
  by (simp_all add: quiet_def)

lemma quiet_advance_left [simp]: "quiet (advance n L) L' = quiet L L'"
  by (simp add: quiet_def advance_def vlib_buffer_advance_def)

lemma cur_is_udp [simp]: "b0 (L\<lparr>is_udp := u\<rparr>) = b0 L"
  by simp

lemma vlib_buffer_advance_simps [simp]:
  "data (vlib_buffer_advance b n) = data b" "is_traced (vlib_buffer_advance b n) = is_traced b"
  by (simp_all add: vlib_buffer_advance_def)

lemma b0_advance [simp]: "b0 (advance n L) = vlib_buffer_advance (b0 L) n"
  by (simp add: advance_def)

lemma data_advance [simp]: "data (b0 (advance n L)) = data (b0 L)"
  "lmain (advance n L) = lmain L" "session (advance n L) = session L"
  "next0 (advance n L) = next0 L" "is_traced (b0 (advance n L)) = is_traced (b0 L)"
  "rewritten (advance n L) = rewritten L" "trace (advance n L) = trace L"
  by (simp_all add: advance_def vlib_buffer_advance_def)

lemma created_est_any:
  "session_upd (pool_get lm) (\<lambda>s. s\<lparr>est := x\<rparr>) (created_state p e kv kvr sp sip nd lm)
     = created_state p x kv kvr sp sip nd lm"
  by (simp add: created_state_def session_upd_def)

lemma created_est_read:
  "est (session_pool (created_state p e kv kvr sp sip nd lm) (pool_get lm)) = e"
  by (simp add: created_state_def)

lemma resolvedI:
  assumes "lookup_or_create ops p set_est
             (key_of ops m ip0 l4 plus0 p (ip_src_address m ip0) (ip_dst_address m ip0))
             (\<lambda>nd. key_of ops m ip0 l4 plus0 p 0 nd)
             (l4_dst_port m l4) (l4_src_port m l4) (ip_src_address m ip0) lm = Some (i, lm1)"
  shows "resolved ops m ip0 l4 plus0 p lm i (session_upd i (\<lambda>s. s\<lparr>est := f s\<rparr>) lm1)"
    and "resolved ops m ip0 l4 plus0 p lm i lm1"
proof -
  from lookup_or_create_cases[OF assms]
  show "resolved ops m ip0 l4 plus0 p lm i (session_upd i (\<lambda>s. s\<lparr>est := f s\<rparr>) lm1)"
    by (auto simp: resolved_def est_only_upd created_est_any created_est_read overrun_upd)
       (simp_all add: created_state_def session_upd_def)
  from lookup_or_create_cases[OF assms]
  show "resolved ops m ip0 l4 plus0 p lm i lm1"
    by (auto simp: resolved_def est_only_refl created_est_read)
qed


lemma key_of_simps [simp]:
  "key_of ops m ip0 l4 plus0 P_TCP src dst =
     make_key ops src dst (l4_src_port m l4) (l4_dst_port m l4) (ip_protocol m ip0)"
  "key_of ops m ip0 l4 plus0 P_QUIC src dst =
     make_key ops src dst (l4_src_port m l4) (l4_dst_port m l4) (ip_protocol m ip0)"
  "key_of ops m ip0 l4 plus0 P_PLUS src dst =
     make_plus_key ops src dst (l4_src_port m l4) (l4_dst_port m l4) (ip_protocol m ip0)
       (plus_CAT ops m plus0)"
  by (simp_all add: key_of_def)

lemma quic_short_packet_number_quiet:
  "quic_short_packet_number ty L = Goto_skip_packet L' \<Longrightarrow> quiet L L'"
  "quic_short_packet_number ty L = Next (pn, L') \<Longrightarrow> quiet L L'"
  by (auto simp: quic_short_packet_number_def Let_def split: if_splits)

lemma quic_header_quiet:
  "quic_header L = Goto_skip_packet L' \<Longrightarrow> quiet L L'"
  "quic_header L = Next (cid, pn, L') \<Longrightarrow> quiet L L'"
  by (auto simp: quic_header_def Let_def split: if_splits flow.splits
           dest!: quic_short_packet_number_quiet)

lemma quiet_data: "quiet L L' \<Longrightarrow> data (b0 L') = data (b0 L) \<and> lmain L' = lmain L"
  by (simp add: quiet_def)

lemma quic_block_skip:
  "quic_block ops now ip0 udp0 L = Goto_skip_packet L' \<Longrightarrow> quiet L L'"
  by (auto simp: quic_block_def Let_def split: if_splits flow.splits option.splits
           dest!: quic_header_quiet)

lemma quic_block_next:
  assumes "quic_block ops now ip0 udp0 L = Next L'"
  shows "\<exists>i. session L' = Some i
           \<and> resolved ops (data (b0 L)) ip0 udp0 plus0 P_QUIC (lmain L) i (lmain L')
           \<and> next0 L' = next0 L"
proof -
  from assms obtain cid pn L1 i lm1 where
    h: "quic_header L = Next (cid, pn, L1)"
    and c: "lookup_or_create ops P_QUIC (quic_set_id ops cid)
              (key_of ops (data (b0 L1)) ip0 udp0 plus0 P_QUIC
                 (ip_src_address (data (b0 L1)) ip0) (ip_dst_address (data (b0 L1)) ip0))
              (\<lambda>nd. key_of ops (data (b0 L1)) ip0 udp0 plus0 P_QUIC 0 nd)
              (l4_dst_port (data (b0 L1)) udp0) (l4_src_port (data (b0 L1)) udp0)
              (ip_src_address (data (b0 L1)) ip0) (lmain L1) = Some (i, lm1)"
    and r: "L' = L1\<lparr>session := Some i,
              lmain := session_upd i
                (\<lambda>s. s\<lparr>est := update_quic_rtt_estimate ops (est s) now
                           (l4_src_port (data (b0 L1)) udp0) (init_src_port s)
                           (data (b0 L1) (cur L1)) pn (pkt_count s)\<rparr>) lm1\<rparr>"
    by (auto simp: quic_block_def Let_def split: if_splits flow.splits option.splits)
  from quic_header_quiet(2)[OF h] have q: "data (b0 L1) = data (b0 L)" "lmain L1 = lmain L"
    "next0 L1 = next0 L"
    by (simp_all add: quiet_def)
  from resolvedI(1)[OF c] r q show ?thesis by simp
qed

lemma plus_extended_header_simps [simp]:
  "session (plus_extended_header ops plus0 L) = session L"
  "lmain (plus_extended_header ops plus0 L) = lmain L"
  "next0 (plus_extended_header ops plus0 L) = next0 L"
  by (simp_all add: plus_extended_header_def Let_def)

lemma plus_block_skip:
  "plus_block ops now ip0 udp0 L = Goto_skip_packet L' \<Longrightarrow> quiet L L'"
  by (auto simp: plus_block_def Let_def split: if_splits option.splits)

lemma plus_block_next:
  assumes "plus_block ops now ip0 udp0 L = Next L'"
  shows "quiet L L'
       \<or> (\<exists>i. session L' = Some i
              \<and> resolved ops (data (b0 L)) ip0 udp0 (cur L) P_PLUS (lmain L) i (lmain L')
              \<and> next0 L' = next0 L)"
proof (cases "SIZE_PLUS \<le> len L
    \<and> plus_magic_and_flags ops (data (b0 L)) (cur L) AND MAGIC_MASK ops = MAGIC ops")
  case False
  with assms show ?thesis by (auto simp: plus_block_def Let_def split: if_splits)
next
  case True
  with assms obtain i lm1 where
    c: "lookup_or_create ops P_PLUS (plus_set_cat ops (plus_CAT ops (data (b0 L)) (cur L)))
              (key_of ops (data (b0 L)) ip0 udp0 (cur L) P_PLUS
                 (ip_src_address (data (b0 L)) ip0) (ip_dst_address (data (b0 L)) ip0))
              (\<lambda>nd. key_of ops (data (b0 L)) ip0 udp0 (cur L) P_PLUS 0 nd)
              (l4_dst_port (data (b0 L)) udp0) (l4_src_port (data (b0 L)) udp0)
              (ip_src_address (data (b0 L)) ip0) (lmain L) = Some (i, lm1)"
    and r: "session L' = Some i" "next0 L' = next0 L"
      "lmain L' = session_upd i
                (\<lambda>s. s\<lparr>est := update_plus_rtt_estimate ops (est s) now
                           (l4_src_port (data (b0 L)) udp0) (init_src_port s)
                           (clib_net_to_host_u32 (plus_PSN ops (data (b0 L)) (cur L)))
                           (clib_net_to_host_u32 (plus_PSE ops (data (b0 L)) (cur L)))
                           (clib_net_to_host_u64 (plus_CAT ops (data (b0 L)) (cur L)))
                           (pkt_count s)\<rparr>) lm1"
    by (auto simp: plus_block_def Let_def split: if_splits option.splits)
  from resolvedI(1)[OF c] r show ?thesis by simp
qed

lemma tcp_block_skip:
  "tcp_block ops now ip0 tcp0 L = Goto_skip_packet L' \<Longrightarrow> quiet L L'"
  by (auto simp: tcp_block_def Let_def split_beta split: if_splits option.splits)

lemma tcp_block_next:
  assumes "tcp_block ops now ip0 tcp0 L = Next L'"
  shows "\<exists>i. session L' = Some i
           \<and> resolved ops (data (b0 L)) ip0 tcp0 plus0 P_TCP (lmain L) i (lmain L')
           \<and> next0 L' = next0 L"
proof -
  from assms obtain i lm1 where
    c: "lookup_or_create ops P_TCP (\<lambda>e. e)
              (key_of ops (data (b0 L)) ip0 tcp0 plus0 P_TCP
                 (ip_src_address (data (b0 L)) ip0) (ip_dst_address (data (b0 L)) ip0))
              (\<lambda>nd. key_of ops (data (b0 L)) ip0 tcp0 plus0 P_TCP 0 nd)
              (l4_dst_port (data (b0 L)) tcp0) (l4_src_port (data (b0 L)) tcp0)
              (ip_src_address (data (b0 L)) ip0) (lmain L) = Some (i, lm1)"
    and r: "session L' = Some i" "next0 L' = next0 L"
      "lmain L' = lm1 \<or> lmain L' = session_upd i
                (\<lambda>s. s\<lparr>est := update_tcp_rtt_estimate ops (est s) now
                           (l4_src_port (data (b0 L)) tcp0) (init_src_port s)
                           (drop_bit TCP_LATENCY_SHIFT
                              (tcp_data_offset_and_reserved (data (b0 L)) tcp0 AND TCP_LATENCY_MASK))
                           (fst (snd (tcp_options_parse_mod ops (data (b0 L)) tcp0)))
                           (snd (snd (tcp_options_parse_mod ops (data (b0 L)) tcp0)))
                           (pkt_count s)
                           (clib_net_to_host_u32 (tcp_seq_number (data (b0 L)) tcp0))\<rparr>) lm1"
    by (auto simp: tcp_block_def Let_def split_beta split: if_splits option.splits)
  from resolvedI[OF c] r show ?thesis by auto
qed

lemma inspect_skip:
  "inspect ops now ip0 L = Goto_skip_packet L' \<Longrightarrow> quiet L L'"
  by (auto simp: inspect_def Let_def split: if_splits
           dest!: quic_block_skip plus_block_skip tcp_block_skip)

lemma inspect_next:
  assumes "inspect ops now ip0 L = Next L'"
  shows "quiet L L'
       \<or> (\<exists>i p. session L' = Some i
              \<and> resolved ops (data (b0 L)) ip0 (cur L) (cur (advance SIZE_UDP L)) p (lmain L) i (lmain L')
              \<and> next0 L' = next0 L)"
  using assms
    quic_block_next[of ops now ip0 "cur L" "(advance SIZE_UDP L)\<lparr>is_udp := True\<rparr>" L'
      "cur (advance SIZE_UDP L)"]
    plus_block_next[of ops now ip0 "cur L" "(advance SIZE_UDP L)\<lparr>is_udp := True\<rparr>" L']
    tcp_block_next[of ops now ip0 "cur L" L L' "cur (advance SIZE_UDP L)"]
  by (auto simp: inspect_def Let_def split: if_splits)


lemma rewrite_and_trace_none:
  "session L = None \<Longrightarrow> rewrite_and_trace ops node_trace ip0 l4 L = L"
  by (simp add: rewrite_and_trace_def)

lemma rewrite_and_trace_some:
  assumes "session L = Some i"
  shows "bumped i (lmain L) (lmain (rewrite_and_trace ops node_trace ip0 l4 L))"
    and "session (rewrite_and_trace ops node_trace ip0 l4 L) = Some i"
    and "next0 (rewrite_and_trace ops node_trace ip0 l4 L) = next0 L"
  using assms
  by (simp_all add: rewrite_and_trace_def Let_def split_beta bumped_def session_upd_def
        update_timer_def split: latency_state_t.splits)

lemma skip_packet_simps [simp]:
  "session (skip_packet L) = session L" "lmain (skip_packet L) = lmain L"
  "next0 (skip_packet L) = next0 L" "rewritten (skip_packet L) = rewritten L"
  "data (b0 (skip_packet L)) = data (b0 L)" "is_traced (b0 (skip_packet L)) = is_traced (b0 L)"
  by (simp_all add: skip_packet_def vlib_buffer_advance_def)

lemma packet_effect:
  fixes ops :: "('tm, 'e) latency_ops" and node_trace now_exp now lm b
  defines "lm0 \<equiv> expire_timers ops now_exp lm"
    and "L \<equiv> latency_node_packet ops node_trace now_exp now lm b"
    and "ip0 \<equiv> vlib_buffer_get_current b"
    and "l4 \<equiv> vlib_buffer_get_current (vlib_buffer_advance b SIZE_IP4)"
    and "plus0 \<equiv> vlib_buffer_get_current (vlib_buffer_advance (vlib_buffer_advance b SIZE_IP4) SIZE_UDP)"
  shows "(session L = None \<and> lmain L = lm0 \<and> b0 L = b \<and> \<not> rewritten L \<and> next0 L = IP4_LOOKUP)
       \<or> (\<exists>i p lm1. session L = Some i \<and> resolved ops (data b) ip0 l4 plus0 p lm0 i lm1
             \<and> bumped i lm1 (lmain L) \<and> next0 L = IP4_LOOKUP)"
proof -
  let ?L0 = "\<lparr>b0 = b, total_advance = 0, is_udp = True, session = None, next0 = IP4_LOOKUP,
              lmain = lm0, rewritten = False, trace = None\<rparr>"
  have c: "current_data (b0 L) = current_data b \<and> current_length (b0 L) = current_length b"
    unfolding L_def by (rule packet_cursor)
  have q: "b0 L = b" if "data (b0 L) = data b" "is_traced (b0 L) = is_traced b"
    using c that by (simp add: vlib_buffer_t.equality)
  show ?thesis
  proof (cases "SIZE_IP4 \<le> uint (current_length b)")
    case False
    then show ?thesis by (simp add: L_def latency_node_packet_def lm0_def)
  next
    case long: True
    show ?thesis
    proof (cases "ip_version_and_header_length (data b) ip0 AND 0xF0 = 0x60")
      case True
      with long have "session L = None \<and> lmain L = lm0 \<and> \<not> rewritten L \<and> next0 L = IP4_LOOKUP
          \<and> data (b0 L) = data b \<and> is_traced (b0 L) = is_traced b"
        by (simp add: L_def latency_node_packet_def lm0_def ip0_def Let_def)
      with q show ?thesis by simp
    next
      case v4: False
      show ?thesis
      proof (cases "inspect ops now ip0 (advance SIZE_IP4 ?L0)")
        case (Goto_skip_packet L2)
        from inspect_skip[OF this] have "quiet ?L0 L2" by simp
        moreover have "L = skip_packet L2"
          using long v4 Goto_skip_packet
          by (simp add: L_def latency_node_packet_def lm0_def ip0_def Let_def)
        ultimately have "session L = None \<and> lmain L = lm0 \<and> \<not> rewritten L \<and> next0 L = IP4_LOOKUP
          \<and> data (b0 L) = data b \<and> is_traced (b0 L) = is_traced b"
          by (simp add: quiet_def)
        with q show ?thesis by simp
      next
        case (Next L2)
        have e: "L = skip_packet (rewrite_and_trace ops node_trace ip0 l4 L2)"
          using long v4 Next
          by (simp add: L_def latency_node_packet_def lm0_def ip0_def l4_def Let_def advance_def)
        from inspect_next[OF Next]
        consider (quiet) "quiet ?L0 L2"
          | (sess) i p where "session L2 = Some i"
              "resolved ops (data b) ip0 l4 plus0 p lm0 i (lmain L2)" "next0 L2 = IP4_LOOKUP"
          by (auto simp: l4_def plus0_def)
        then show ?thesis
        proof cases
          case quiet
          then have "session L2 = None" by (simp add: quiet_def)
          with e quiet have "session L = None \<and> lmain L = lm0 \<and> \<not> rewritten L \<and> next0 L = IP4_LOOKUP
              \<and> data (b0 L) = data b \<and> is_traced (b0 L) = is_traced b"
            by (simp add: rewrite_and_trace_none quiet_def)
          with q show ?thesis by simp
        next
          case sess
          from rewrite_and_trace_some[OF sess(1), of ops node_trace ip0 l4] e sess
          have "session L = Some i \<and> resolved ops (data b) ip0 l4 plus0 p lm0 i (lmain L2)
             \<and> bumped i (lmain L2) (lmain L) \<and> next0 L = IP4_LOOKUP"
            by simp
          then show ?thesis by blast
        qed
      qed
    qed
  qed
qed


lemma bumped_fields:
  assumes "bumped i lm lm'"
  shows "pool_len lm' = pool_len lm" "pool_free lm' = pool_free lm"
    "session_table lm' = session_table lm" "wheel_tick lm' = wheel_tick lm"
    "j \<noteq> i \<Longrightarrow> session_pool lm' j = session_pool lm j"
    "pkt_count (session_pool lm' i) = pkt_count (session_pool lm i) + 1"
    "key (session_pool lm' i) = key (session_pool lm i)"
    "key_reverse (session_pool lm' i) = key_reverse (session_pool lm i)"
    "p_type (session_pool lm' i) = p_type (session_pool lm i)"
    "init_src_ip (session_pool lm' i) = init_src_ip (session_pool lm i)"
    "init_src_port (session_pool lm' i) = init_src_port (session_pool lm i)"
    "new_dst_ip (session_pool lm' i) = new_dst_ip (session_pool lm i)"
proof -
  note e = assms[unfolded bumped_def session_upd_def]
  show "pool_len lm' = pool_len lm" by (subst e) simp
  show "pool_free lm' = pool_free lm" by (subst e) simp
  show "session_table lm' = session_table lm" by (subst e) simp
  show "wheel_tick lm' = wheel_tick lm" by (subst e) simp
  show "j \<noteq> i \<Longrightarrow> session_pool lm' j = session_pool lm j" by (subst e) simp
  show "pkt_count (session_pool lm' i) = pkt_count (session_pool lm i) + 1" by (subst e) simp
  show "key (session_pool lm' i) = key (session_pool lm i)" by (subst e) simp
  show "key_reverse (session_pool lm' i) = key_reverse (session_pool lm i)" by (subst e) simp
  show "p_type (session_pool lm' i) = p_type (session_pool lm i)" by (subst e) simp
  show "init_src_ip (session_pool lm' i) = init_src_ip (session_pool lm i)" by (subst e) simp
  show "init_src_port (session_pool lm' i) = init_src_port (session_pool lm i)" by (subst e) simp
  show "new_dst_ip (session_pool lm' i) = new_dst_ip (session_pool lm i)" by (subst e) simp
qed

lemma est_only_fields:
  assumes "est_only i lm lm'"
  shows "pool_len lm' = pool_len lm" "pool_free lm' = pool_free lm"
    "session_table lm' = session_table lm" "wheel_tick lm' = wheel_tick lm"
    "j \<noteq> i \<Longrightarrow> session_pool lm' j = session_pool lm j"
    "pkt_count (session_pool lm' i) = pkt_count (session_pool lm i)"
    "key (session_pool lm' i) = key (session_pool lm i)"
    "key_reverse (session_pool lm' i) = key_reverse (session_pool lm i)"
    "p_type (session_pool lm' i) = p_type (session_pool lm i)"
    "init_src_ip (session_pool lm' i) = init_src_ip (session_pool lm i)"
    "init_src_port (session_pool lm' i) = init_src_port (session_pool lm i)"
    "new_dst_ip (session_pool lm' i) = new_dst_ip (session_pool lm i)"
proof -
  note e = assms[unfolded est_only_def session_upd_def]
  show "pool_len lm' = pool_len lm" by (subst e) simp
  show "pool_free lm' = pool_free lm" by (subst e) simp
  show "session_table lm' = session_table lm" by (subst e) simp
  show "wheel_tick lm' = wheel_tick lm" by (subst e) simp
  show "j \<noteq> i \<Longrightarrow> session_pool lm' j = session_pool lm j" by (subst e) simp
  show "pkt_count (session_pool lm' i) = pkt_count (session_pool lm i)" by (subst e) simp
  show "key (session_pool lm' i) = key (session_pool lm i)" by (subst e) simp
  show "key_reverse (session_pool lm' i) = key_reverse (session_pool lm i)" by (subst e) simp
  show "p_type (session_pool lm' i) = p_type (session_pool lm i)" by (subst e) simp
  show "init_src_ip (session_pool lm' i) = init_src_ip (session_pool lm i)" by (subst e) simp
  show "init_src_port (session_pool lm' i) = init_src_port (session_pool lm i)" by (subst e) simp
  show "new_dst_ip (session_pool lm' i) = new_dst_ip (session_pool lm i)" by (subst e) simp
qed

lemma created_fields:
  assumes "lm' = created_state p e kv kvr sp sip nd lm"
  shows "pool_len lm' = max (pool_len lm) (Suc (pool_get lm))"
    "pool_free lm' = (pool_free lm)(pool_get lm := False)"
    "session_table lm' = (session_table lm)(kv \<mapsto> pool_get lm, kvr \<mapsto> pool_get lm)"
    "wheel_tick lm' = wheel_tick lm"
    "j \<noteq> pool_get lm \<Longrightarrow> session_pool lm' j = session_pool lm j"
    "pkt_count (session_pool lm' (pool_get lm)) = 1"
    "key (session_pool lm' (pool_get lm)) = kv"
    "key_reverse (session_pool lm' (pool_get lm)) = kvr"
    "p_type (session_pool lm' (pool_get lm)) = p"
    "init_src_ip (session_pool lm' (pool_get lm)) = sip"
    "init_src_port (session_pool lm' (pool_get lm)) = sp"
    "new_dst_ip (session_pool lm' (pool_get lm)) = nd"
  by (simp_all add: assms created_state_def)



lemma packet_cases:
  fixes ops :: "('tm, 'e) latency_ops" and node_trace now_exp now lm b
  defines "lm0 \<equiv> expire_timers ops now_exp lm"
    and "L \<equiv> latency_node_packet ops node_trace now_exp now lm b"
    and "ip0 \<equiv> vlib_buffer_get_current b"
    and "l4 \<equiv> vlib_buffer_get_current (vlib_buffer_advance b SIZE_IP4)"
    and "plus0 \<equiv> vlib_buffer_get_current (vlib_buffer_advance (vlib_buffer_advance b SIZE_IP4) SIZE_UDP)"
  assumes skipped: "\<lbrakk>session L = None; lmain L = lm0; b0 L = b; \<not> rewritten L\<rbrakk> \<Longrightarrow> P"
    and found: "\<And>i p lm1.
      \<lbrakk>session L = Some i;
       session_table lm0 (key_of ops (data b) ip0 l4 plus0 p (ip_src_address (data b) ip0)
                            (ip_dst_address (data b) ip0)) = Some i;
       est_only i lm0 lm1; bumped i lm1 (lmain L)\<rbrakk> \<Longrightarrow> P"
    and created: "\<And>p lm1.
      \<lbrakk>session L = Some (pool_get lm0);
       session_table lm0 (key_of ops (data b) ip0 l4 plus0 p (ip_src_address (data b) ip0)
                            (ip_dst_address (data b) ip0)) = None;
       get_new_dst ops (l4_dst_port (data b) l4) \<noteq> 0;
       lm1 = created_state p (est (session_pool lm1 (pool_get lm0)))
               (key_of ops (data b) ip0 l4 plus0 p (ip_src_address (data b) ip0) (ip_dst_address (data b) ip0))
               (key_of ops (data b) ip0 l4 plus0 p 0 (get_new_dst ops (l4_dst_port (data b) l4)))
               (l4_src_port (data b) l4) (ip_src_address (data b) ip0)
               (get_new_dst ops (l4_dst_port (data b) l4)) lm0;
       bumped (pool_get lm0) lm1 (lmain L)\<rbrakk> \<Longrightarrow> P"
    and exhausted: "\<And>p lm1.
      \<lbrakk>session L = Some (pool_len lm0); pool_exhausted lm0;
       overrun (pool_len lm0)
         (key_of ops (data b) ip0 l4 plus0 p (ip_src_address (data b) ip0) (ip_dst_address (data b) ip0))
         lm0 lm1;
       bumped (pool_len lm0) lm1 (lmain L)\<rbrakk> \<Longrightarrow> P"
  shows P
proof -
  from packet_effect[of ops node_trace now_exp now lm b]
  consider (a) "session L = None \<and> lmain L = lm0 \<and> b0 L = b \<and> \<not> rewritten L"
    | (b) "\<exists>i p lm1. session L = Some i \<and> resolved ops (data b) ip0 l4 plus0 p lm0 i lm1
             \<and> bumped i lm1 (lmain L)"
    unfolding L_def lm0_def ip0_def l4_def plus0_def by blast
  then show P
  proof cases
    case a
    then show P using skipped by blast
  next
    case b
    then obtain i p lm1 where s: "session L = Some i"
      and r: "resolved ops (data b) ip0 l4 plus0 p lm0 i lm1"
      and u: "bumped i lm1 (lmain L)" by blast
    from r show P unfolding resolved_def
    proof (elim disjE conjE)
      assume t: "session_table lm0 (key_of ops (data b) ip0 l4 plus0 p (ip_src_address (data b) ip0)
                            (ip_dst_address (data b) ip0)) = Some i"
        and e: "est_only i lm0 lm1"
      show P by (rule found[OF s t e u])
    next
      assume t: "session_table lm0 (key_of ops (data b) ip0 l4 plus0 p (ip_src_address (data b) ip0)
                            (ip_dst_address (data b) ip0)) = None"
        and n: "get_new_dst ops (l4_dst_port (data b) l4) \<noteq> 0"
        and i: "i = pool_get lm0"
        and c: "lm1 = created_state p (est (session_pool lm1 i))
               (key_of ops (data b) ip0 l4 plus0 p (ip_src_address (data b) ip0) (ip_dst_address (data b) ip0))
               (key_of ops (data b) ip0 l4 plus0 p 0 (get_new_dst ops (l4_dst_port (data b) l4)))
               (l4_src_port (data b) l4) (ip_src_address (data b) ip0)
               (get_new_dst ops (l4_dst_port (data b) l4)) lm0"
      show P by (rule created[OF s[unfolded i] t n c[unfolded i] u[unfolded i]])
    next
      assume x: "pool_exhausted lm0"
        and i: "i = pool_len lm0"
        and o: "overrun i (key_of ops (data b) ip0 l4 plus0 p (ip_src_address (data b) ip0)
                            (ip_dst_address (data b) ip0)) lm0 lm1"
      show P by (rule exhausted[OF s[unfolded i] x o[unfolded i] u[unfolded i]])
    qed
  qed
qed

lemma packet_live:
  fixes ops :: "('tm, 'e) latency_ops"
  assumes "live (expire_timers ops now_exp lm) j"
  shows "live (lmain (latency_node_packet ops node_trace now_exp now lm b)) j"
proof (rule packet_cases[of ops node_trace now_exp now lm b])
  assume "lmain (latency_node_packet ops node_trace now_exp now lm b) = expire_timers ops now_exp lm"
  with assms show ?thesis by simp
next
  fix i lm1
  assume e: "est_only i (expire_timers ops now_exp lm) lm1"
    and u: "bumped i lm1 (lmain (latency_node_packet ops node_trace now_exp now lm b))"
  from assms show ?thesis
    by (simp add: live_def bumped_fields(1,2)[OF u] est_only_fields(1,2)[OF e])
next
  fix p :: latency_protocol and lm1 e kv kvr sp sip nd
  assume c: "lm1 = created_state p e kv kvr sp sip nd (expire_timers ops now_exp lm)"
    and u: "bumped (pool_get (expire_timers ops now_exp lm)) lm1
              (lmain (latency_node_packet ops node_trace now_exp now lm b))"
  from assms show ?thesis
    by (auto simp: live_def bumped_fields(1,2)[OF u] created_fields(1,2)[OF c] less_max_iff_disj)
next
  fix lm1 kv
  assume o: "overrun (pool_len (expire_timers ops now_exp lm)) kv (expire_timers ops now_exp lm) lm1"
    and u: "bumped (pool_len (expire_timers ops now_exp lm)) lm1
              (lmain (latency_node_packet ops node_trace now_exp now lm b))"
  from assms o show ?thesis
    by (simp add: live_def bumped_fields(1,2)[OF u] overrun_def)
qed

lemma packet_pkt_count:
  fixes ops :: "('tm, 'e) latency_ops" and now_exp lm node_trace now b
  defines "lm0 \<equiv> expire_timers ops now_exp lm"
    and "L \<equiv> latency_node_packet ops node_trace now_exp now lm b"
  assumes "live lm0 j"
  shows "pkt_count (session_pool (lmain L) j)
           = pkt_count (session_pool lm0 j) + (if session L = Some j then 1 else 0)"
  unfolding L_def lm0_def
proof (rule packet_cases[of ops node_trace now_exp now lm b])
  assume "session (latency_node_packet ops node_trace now_exp now lm b) = None"
    "lmain (latency_node_packet ops node_trace now_exp now lm b) = expire_timers ops now_exp lm"
  then show "pkt_count (session_pool (lmain (latency_node_packet ops node_trace now_exp now lm b)) j)
           = pkt_count (session_pool (expire_timers ops now_exp lm) j)
             + (if session (latency_node_packet ops node_trace now_exp now lm b) = Some j then 1 else 0)"
    by simp
next
  fix i lm1
  assume s: "session (latency_node_packet ops node_trace now_exp now lm b) = Some i"
    and e: "est_only i (expire_timers ops now_exp lm) lm1"
    and u: "bumped i lm1 (lmain (latency_node_packet ops node_trace now_exp now lm b))"
  show "pkt_count (session_pool (lmain (latency_node_packet ops node_trace now_exp now lm b)) j)
           = pkt_count (session_pool (expire_timers ops now_exp lm) j)
             + (if session (latency_node_packet ops node_trace now_exp now lm b) = Some j then 1 else 0)"
  proof (cases "j = i")
    case True
    with s show ?thesis by (simp add: bumped_fields(6)[OF u] est_only_fields(6)[OF e])
  next
    case False
    with s show ?thesis by (simp add: bumped_fields(5)[OF u] est_only_fields(5)[OF e])
  qed
next
  fix p :: latency_protocol and lm1 e kv kvr sp sip nd
  assume s: "session (latency_node_packet ops node_trace now_exp now lm b)
               = Some (pool_get (expire_timers ops now_exp lm))"
    and c: "lm1 = created_state p e kv kvr sp sip nd (expire_timers ops now_exp lm)"
    and u: "bumped (pool_get (expire_timers ops now_exp lm)) lm1
              (lmain (latency_node_packet ops node_trace now_exp now lm b))"
  from assms(3) pool_get_not_live[of lm0] have "j \<noteq> pool_get (expire_timers ops now_exp lm)"
    unfolding lm0_def by auto
  with s show "pkt_count (session_pool (lmain (latency_node_packet ops node_trace now_exp now lm b)) j)
           = pkt_count (session_pool (expire_timers ops now_exp lm) j)
             + (if session (latency_node_packet ops node_trace now_exp now lm b) = Some j then 1 else 0)"
    by (simp add: bumped_fields(5)[OF u] created_fields(5)[OF c])
next
  fix lm1 kv
  assume s: "session (latency_node_packet ops node_trace now_exp now lm b)
               = Some (pool_len (expire_timers ops now_exp lm))"
    and o: "overrun (pool_len (expire_timers ops now_exp lm)) kv (expire_timers ops now_exp lm) lm1"
    and u: "bumped (pool_len (expire_timers ops now_exp lm)) lm1
              (lmain (latency_node_packet ops node_trace now_exp now lm b))"
  from assms(3) have "j \<noteq> pool_len (expire_timers ops now_exp lm)"
    unfolding lm0_def live_def by auto
  with s o show "pkt_count (session_pool (lmain (latency_node_packet ops node_trace now_exp now lm b)) j)
           = pkt_count (session_pool (expire_timers ops now_exp lm) j)
             + (if session (latency_node_packet ops node_trace now_exp now lm b) = Some j then 1 else 0)"
    by (simp add: bumped_fields(5)[OF u] overrun_def)
qed

lemma packet_created:
  fixes ops :: "('tm, 'e) latency_ops" and now_exp lm node_trace now b i
  defines "lm0 \<equiv> expire_timers ops now_exp lm"
    and "L \<equiv> latency_node_packet ops node_trace now_exp now lm b"
    and "ip0 \<equiv> vlib_buffer_get_current b"
    and "l4 \<equiv> vlib_buffer_get_current (vlib_buffer_advance b SIZE_IP4)"
    and "plus0 \<equiv> vlib_buffer_get_current (vlib_buffer_advance (vlib_buffer_advance b SIZE_IP4) SIZE_UDP)"
  defines "s \<equiv> session_pool (lmain L) i"
  assumes "session L = Some i" "\<not> live lm0 i" "live (lmain L) i"
  shows "i = pool_get lm0
    \<and> pkt_count s = 2
    \<and> key s = key_of ops (data b) ip0 l4 plus0 (p_type s)
                   (ip_src_address (data b) ip0) (ip_dst_address (data b) ip0)
    \<and> key_reverse s = key_of ops (data b) ip0 l4 plus0 (p_type s) 0 (new_dst_ip s)
    \<and> new_dst_ip s = get_new_dst ops (l4_dst_port (data b) l4)
    \<and> init_src_ip s = ip_src_address (data b) ip0
    \<and> init_src_port s = l4_src_port (data b) l4
    \<and> session_table (lmain L) (key s) = Some i
    \<and> session_table (lmain L) (key_reverse s) = Some i"
proof (rule packet_cases[of ops node_trace now_exp now lm b])
  assume "session (latency_node_packet ops node_trace now_exp now lm b) = None"
  with assms(7) show ?thesis by (simp add: L_def)
next
  fix i' lm1
  assume s': "session (latency_node_packet ops node_trace now_exp now lm b) = Some i'"
    and e: "est_only i' (expire_timers ops now_exp lm) lm1"
    and u: "bumped i' lm1 (lmain (latency_node_packet ops node_trace now_exp now lm b))"
  from s' assms(7) have "i' = i" by (simp add: L_def)
  with assms(9) have "live lm0 i"
    by (simp add: live_def L_def lm0_def bumped_fields(1,2)[OF u] est_only_fields(1,2)[OF e])
  with assms(8) show ?thesis by simp
next
  fix p lm1
  assume s': "session (latency_node_packet ops node_trace now_exp now lm b)
               = Some (pool_get (expire_timers ops now_exp lm))"
    and c: "lm1 = created_state p (est (session_pool lm1 (pool_get (expire_timers ops now_exp lm))))
             (key_of ops (data b) (vlib_buffer_get_current b)
                (vlib_buffer_get_current (vlib_buffer_advance b SIZE_IP4))
                (vlib_buffer_get_current (vlib_buffer_advance (vlib_buffer_advance b SIZE_IP4) SIZE_UDP)) p
                (ip_src_address (data b) (vlib_buffer_get_current b))
                (ip_dst_address (data b) (vlib_buffer_get_current b)))
             (key_of ops (data b) (vlib_buffer_get_current b)
                (vlib_buffer_get_current (vlib_buffer_advance b SIZE_IP4))
                (vlib_buffer_get_current (vlib_buffer_advance (vlib_buffer_advance b SIZE_IP4) SIZE_UDP)) p 0
                (get_new_dst ops (l4_dst_port (data b) (vlib_buffer_get_current (vlib_buffer_advance b SIZE_IP4)))))
             (l4_src_port (data b) (vlib_buffer_get_current (vlib_buffer_advance b SIZE_IP4)))
             (ip_src_address (data b) (vlib_buffer_get_current b))
             (get_new_dst ops (l4_dst_port (data b) (vlib_buffer_get_current (vlib_buffer_advance b SIZE_IP4))))
             (expire_timers ops now_exp lm)"
    and u: "bumped (pool_get (expire_timers ops now_exp lm)) lm1
              (lmain (latency_node_packet ops node_trace now_exp now lm b))"
  from s' assms(7) have i: "i = pool_get (expire_timers ops now_exp lm)" by (simp add: L_def)
  note cf = created_fields[OF c]
  note bf = bumped_fields[OF u]
  show ?thesis
    unfolding s_def L_def lm0_def ip0_def l4_def plus0_def i
    by (simp add: bf cf)
next
  fix lm1 kv
  assume s': "session (latency_node_packet ops node_trace now_exp now lm b)
               = Some (pool_len (expire_timers ops now_exp lm))"
    and o: "overrun (pool_len (expire_timers ops now_exp lm)) kv (expire_timers ops now_exp lm) lm1"
    and u: "bumped (pool_len (expire_timers ops now_exp lm)) lm1
              (lmain (latency_node_packet ops node_trace now_exp now lm b))"
  from s' assms(7) have "i = pool_len (expire_timers ops now_exp lm)" by (simp add: L_def)
  with assms(9) o have "False"
    by (simp add: live_def L_def bumped_fields(1,2)[OF u] overrun_def)
  then show ?thesis ..
qed



section \<open>The timer wheel and frames\<close>

lemma remove_session_simps [simp]:
  "session_pool (remove_session i lm) = session_pool lm"
  "pool_len (remove_session i lm) = pool_len lm"
  "wheel_tick (remove_session i lm) = wheel_tick lm"
  "pool_free (remove_session i lm) = (pool_free lm)(i := True)"
  "session_table (remove_session i lm) =
     (session_table lm)(key (session_pool lm i) := None, key_reverse (session_pool lm i) := None)"
  by (simp_all add: remove_session_def)

lemma expire_slot_simps [simp]:
  "session_pool (expire_slot t_last t i lm) = session_pool lm"
  "pool_len (expire_slot t_last t i lm) = pool_len lm"
  "wheel_tick (expire_slot t_last t i lm) = wheel_tick lm"
  by (simp_all add: expire_slot_def)

lemma expire_slot_free: "pool_free lm j \<Longrightarrow> pool_free (expire_slot t_last t i lm) j"
  by (simp add: expire_slot_def)

lemma expire_slot_table_None:
  "session_table lm k = None \<Longrightarrow> session_table (expire_slot t_last t i lm) k = None"
  by (simp add: expire_slot_def)

lemma expire_slot_removed:
  "\<not> pool_free lm j \<Longrightarrow> pool_free (expire_slot t_last t i lm) j \<Longrightarrow>
     session_table (expire_slot t_last t i lm) (key (session_pool lm j)) = None
     \<and> session_table (expire_slot t_last t i lm) (key_reverse (session_pool lm j)) = None"
  by (auto simp: expire_slot_def split: if_splits)

lemma fold_expire_slot:
  "session_pool (fold (expire_slot t_last t) xs lm) = session_pool lm
   \<and> pool_len (fold (expire_slot t_last t) xs lm) = pool_len lm
   \<and> wheel_tick (fold (expire_slot t_last t) xs lm) = wheel_tick lm
   \<and> (pool_free lm j \<longrightarrow> pool_free (fold (expire_slot t_last t) xs lm) j)
   \<and> (session_table lm k = None \<longrightarrow> session_table (fold (expire_slot t_last t) xs lm) k = None)
   \<and> (\<not> pool_free lm j \<and> pool_free (fold (expire_slot t_last t) xs lm) j \<longrightarrow>
        session_table (fold (expire_slot t_last t) xs lm) (key (session_pool lm j)) = None
        \<and> session_table (fold (expire_slot t_last t) xs lm) (key_reverse (session_pool lm j)) = None)"
proof (induction xs arbitrary: lm k)
  case Nil
  show ?case by simp
next
  case (Cons x xs)
  note ih = Cons.IH[of "expire_slot t_last t x lm" k]
  show ?case
  proof (intro conjI impI)
    show "session_pool (fold (expire_slot t_last t) (x # xs) lm) = session_pool lm" using ih by simp
    show "pool_len (fold (expire_slot t_last t) (x # xs) lm) = pool_len lm" using ih by simp
    show "wheel_tick (fold (expire_slot t_last t) (x # xs) lm) = wheel_tick lm" using ih by simp
    show "pool_free (fold (expire_slot t_last t) (x # xs) lm) j" if "pool_free lm j"
      using ih expire_slot_free[OF that, of t_last t x] by simp
    show "session_table (fold (expire_slot t_last t) (x # xs) lm) k = None" if "session_table lm k = None"
      using ih expire_slot_table_None[OF that, of t_last t x] by simp
  next
    assume a: "\<not> pool_free lm j \<and> pool_free (fold (expire_slot t_last t) (x # xs) lm) j"
    show "session_table (fold (expire_slot t_last t) (x # xs) lm) (key (session_pool lm j)) = None"
    proof (cases "pool_free (expire_slot t_last t x lm) j")
      case True
      with a expire_slot_removed[of lm j t_last t x]
      have "session_table (expire_slot t_last t x lm) (key (session_pool lm j)) = None" by simp
      with Cons.IH[of "expire_slot t_last t x lm" "key (session_pool lm j)"] show ?thesis by simp
    next
      case False
      with a Cons.IH[of "expire_slot t_last t x lm" k] show ?thesis by simp
    qed
    show "session_table (fold (expire_slot t_last t) (x # xs) lm) (key_reverse (session_pool lm j)) = None"
    proof (cases "pool_free (expire_slot t_last t x lm) j")
      case True
      with a expire_slot_removed[of lm j t_last t x]
      have "session_table (expire_slot t_last t x lm) (key_reverse (session_pool lm j)) = None" by simp
      with Cons.IH[of "expire_slot t_last t x lm" "key_reverse (session_pool lm j)"] show ?thesis by simp
    next
      case False
      with a Cons.IH[of "expire_slot t_last t x lm" k] show ?thesis by simp
    qed
  qed
qed

lemma expire_timers_simps [simp]:
  "session_pool (expire_timers ops now lm) = session_pool lm"
  "pool_len (expire_timers ops now lm) = pool_len lm"
  using fold_expire_slot[where t_last = "wheel_tick lm" and t = "max (wheel_tick lm) (time_to_ticks ops now)"
      and xs = "[0..<pool_len lm]" and lm = lm]
  by (simp_all add: expire_timers_def Let_def)

lemma expire_timers_live: "live (expire_timers ops now lm) j \<Longrightarrow> live lm j"
  using fold_expire_slot[where t_last = "wheel_tick lm" and t = "max (wheel_tick lm) (time_to_ticks ops now)"
      and xs = "[0..<pool_len lm]" and lm = lm and j = j]
  by (auto simp: expire_timers_def Let_def live_def)


lemma latency_node_fn_Cons:
  "fst (latency_node_fn ops node_trace lm ((now_exp, now, b) # frame))
     = fst (latency_node_fn ops node_trace
              (lmain (latency_node_packet ops node_trace now_exp now lm b)) frame)"
  by (simp add: Let_def split_beta)

lemma kept_pkt_count:
  "kept ops node_trace i lm frame \<Longrightarrow>
     pkt_count (session_pool (fst (latency_node_fn ops node_trace lm frame)) i)
       = pkt_count (session_pool lm i) + of_nat (reached_count ops node_trace i lm frame)"
proof (induction frame arbitrary: lm)
  case Nil
  show ?case by simp
next
  case (Cons x frame)
  obtain now_exp now b where x: "x = (now_exp, now, b)" by (cases x)
  let ?L = "latency_node_packet ops node_trace now_exp now lm b"
  from Cons.prems x have l: "live (expire_timers ops now_exp lm) i"
    and k: "kept ops node_trace i (lmain ?L) frame" by simp_all
  from packet_pkt_count[OF l, where node_trace = node_trace and now = now and b = b]
  have "pkt_count (session_pool (lmain ?L) i)
          = pkt_count (session_pool lm i) + (if session ?L = Some i then 1 else 0)" by simp
  with Cons.IH[OF k] show ?case
    unfolding x latency_node_fn_Cons by simp
qed



section \<open>From the incoming packet to the outcome\<close>

lemma hdr_at_0 [simp]: "hdr_at b 0 = vlib_buffer_get_current b"
  by (simp add: hdr_at_def vlib_buffer_advance_def)




lemma entry_is_udp [simp]: "(entry b m lme k u)\<lparr>is_udp := v\<rparr> = entry b m lme k v"
  by (simp add: entry_def)

lemma entry_simps [simp]:
  "vlib_buffer_get_current (b0 (entry b m lme k u)) = hdr_at b k"
  "uint (current_length (b0 (entry b m lme k u))) = bytes_after b k"
  "data (b0 (entry b m lme k u)) = m"
  "lmain (entry b m lme k u) = lme"
  "session (entry b m lme k u) = None"
  "rewritten (entry b m lme k u) = False"
  "next0 (entry b m lme k u) = IP4_LOOKUP"
  "is_traced (b0 (entry b m lme k u)) = is_traced b"
  "is_udp (entry b m lme k u) = u"
  by (simp_all add: entry_def hdr_at_def bytes_after_def vlib_buffer_get_current_def
        vlib_buffer_advance_def)

lemma entry_data [simp]:
  "(entry b m lme k u)\<lparr>b0 := (b0 (entry b m lme k u))\<lparr>data := m'\<rparr>\<rparr> = entry b m' lme k u"
  by (simp add: entry_def)

lemma session_upd_id [simp]: "session_upd i (\<lambda>s. s) lm = lm"
  by (simp add: session_upd_def)






lemma key_of_fun [simp]:
  "key_of ops m ip0 l4 plus0 P_TCP src =
     (\<lambda>dst. make_key ops src dst (l4_src_port m l4) (l4_dst_port m l4) (ip_protocol m ip0))"
  "key_of ops m ip0 l4 plus0 P_QUIC src =
     (\<lambda>dst. make_key ops src dst (l4_src_port m l4) (l4_dst_port m l4) (ip_protocol m ip0))"
  "key_of ops m ip0 l4 plus0 P_PLUS src =
     (\<lambda>dst. make_plus_key ops src dst (l4_src_port m l4) (l4_dst_port m l4) (ip_protocol m ip0)
              (plus_CAT ops m plus0))"
  by (rule ext, simp)+

lemma not_plus_data [simp]:
  "inspected_as ops b \<noteq> Some P_PLUS \<Longrightarrow> data_at_rewrite ops b = data b"
  by (simp add: data_at_rewrite_def hop_count_incremented_def)




















section \<open>Claim C1: packets that hit an error\<close>



text \<open>
  Claim C2: for every packet the node processes, whatever its protocol, parse outcome or
  exit path, the buffer's read cursor (and the length from it) on leaving the iteration
  equals the one on entry: the cursor is back at the IPv4 header.
\<close>

theorem cursor_restored:
  "current_data (b0 (latency_node_packet ops node_trace now_exp now lm b)) = current_data b
   \<and> current_length (b0 (latency_node_packet ops node_trace now_exp now lm b)) = current_length b"
  by (rule packet_cursor)

section \<open>Claim C3: the packet count of a session\<close>

text \<open>
  Claim C3, as amended: when a packet creates session \<open>i\<close> and the session is not
  removed by the timer wheel during the rest of the frame, then after the \<open>N\<close> packets
  of the frame that reached the increment of line 516 for it (the creating packet
  among them) its \<open>pkt_count\<close> is \<open>N + 1\<close>, modulo \<open>2 ^ 32\<close>: it starts at 1 and is
  incremented once per packet.
\<close>

theorem pkt_count_is_packets_counted_plus_one:
  fixes ops :: "('tm, 'e) latency_ops" and node_trace now_exp now lm b i frame
  defines "L \<equiv> latency_node_packet ops node_trace now_exp now lm b"
  assumes "session L = Some i"
    and "\<not> live (expire_timers ops now_exp lm) i"
    and "live (lmain L) i"
    and "kept ops node_trace i (lmain L) frame"
  shows "pkt_count (session_pool (fst (latency_node_fn ops node_trace lm ((now_exp, now, b) # frame))) i)
           = of_nat (reached_count ops node_trace i lm ((now_exp, now, b) # frame)) + 1"
proof -
  have c: "pkt_count (session_pool (lmain L) i) = 2"
    unfolding L_def
    by (rule packet_created[OF assms(2-4)[unfolded L_def], THEN conjunct2, THEN conjunct1])
  from kept_pkt_count[OF assms(5)] c assms(2)
  show ?thesis unfolding latency_node_fn_Cons L_def by simp
qed

theorem pkt_count_is_packets_counted_plus_one_witness:
  "session (latency_node_packet ref_ops False 0 0 lm_empty (buffer_of tcp_syn_packet)) = Some 0
   \<and> \<not> live (expire_timers ref_ops 0 lm_empty) 0
   \<and> live (lmain (latency_node_packet ref_ops False 0 0 lm_empty (buffer_of tcp_syn_packet))) 0
   \<and> kept ref_ops False 0 (lmain (latency_node_packet ref_ops False 0 0 lm_empty (buffer_of tcp_syn_packet)))
        [(5, 5, buffer_of tcp_ack_packet), (7, 7, buffer_of tcp_unknown_port_packet),
         (9, 9, buffer_of tcp_ack_packet)]
   \<and> reached_count ref_ops False 0 lm_empty
        [(0, 0, buffer_of tcp_syn_packet), (5, 5, buffer_of tcp_ack_packet),
         (7, 7, buffer_of tcp_unknown_port_packet), (9, 9, buffer_of tcp_ack_packet)] = 3
   \<and> pkt_count (session_pool (fst (latency_node_fn ref_ops False lm_empty
        [(0, 0, buffer_of tcp_syn_packet), (5, 5, buffer_of tcp_ack_packet),
         (7, 7, buffer_of tcp_unknown_port_packet), (9, 9, buffer_of tcp_ack_packet)])) 0) = 4"
proof -
  have h: "session (latency_node_packet ref_ops False 0 0 lm_empty (buffer_of tcp_syn_packet)) = Some 0"
    "\<not> live (expire_timers ref_ops 0 lm_empty) 0"
    "live (lmain (latency_node_packet ref_ops False 0 0 lm_empty (buffer_of tcp_syn_packet))) 0"
    "kept ref_ops False 0 (lmain (latency_node_packet ref_ops False 0 0 lm_empty (buffer_of tcp_syn_packet)))
        [(5, 5, buffer_of tcp_ack_packet), (7, 7, buffer_of tcp_unknown_port_packet),
         (9, 9, buffer_of tcp_ack_packet)]"
    by (simp_all add: eval_defs tcp_syn_packet_def tcp_ack_packet_def tcp_unknown_port_packet_def)
  have r: "reached_count ref_ops False 0 lm_empty
        [(0, 0, buffer_of tcp_syn_packet), (5, 5, buffer_of tcp_ack_packet),
         (7, 7, buffer_of tcp_unknown_port_packet), (9, 9, buffer_of tcp_ack_packet)] = 3"
    by (simp add: eval_defs tcp_syn_packet_def tcp_ack_packet_def tcp_unknown_port_packet_def)
  from pkt_count_is_packets_counted_plus_one[OF h, unfolded r]
  have p: "pkt_count (session_pool (fst (latency_node_fn ref_ops False lm_empty
        [(0, 0, buffer_of tcp_syn_packet), (5, 5, buffer_of tcp_ack_packet),
         (7, 7, buffer_of tcp_unknown_port_packet), (9, 9, buffer_of tcp_ack_packet)])) 0) = 4"
    by simp
  from h r p show ?thesis by blast
qed

text \<open>The claim as stated fails for \<open>N = 1\<close>: after the first packet the count is 2.\<close>

theorem pkt_count_after_one_packet_counterexample:
  "reached_count ref_ops False 0 lm_empty [(0, 0, buffer_of tcp_syn_packet)] = 1
   \<and> live (fst (latency_node_fn ref_ops False lm_empty [(0, 0, buffer_of tcp_syn_packet)])) 0
   \<and> pkt_count (session_pool (fst (latency_node_fn ref_ops False lm_empty
        [(0, 0, buffer_of tcp_syn_packet)])) 0) = 2"
  by (simp add: eval_defs tcp_syn_packet_def)

section \<open>Claim C4: QUIC headers that run past the buffer\<close>

text \<open>
  The long-header branch (lines 210-231) advances over the connection id, the packet
  number and the version without looking at the length: it never skips the packet.
\<close>

lemma quic_long_header_is_never_skipped:
  "data (b0 L) (cur L) AND IS_LONG \<noteq> 0 \<Longrightarrow>
     \<exists>connection_id packet_number.
       quic_header L = Next (connection_id, packet_number,
         advance SIZE_VERSION (advance SIZE_NUMBER_32 (advance SIZE_ID (advance SIZE_TYPE L))))"
  by (simp add: quic_header_def Let_def)

text \<open>
  Claim C4 fails on the code. The datagram below is on the QUIC port and holds three
  bytes of a long header. The node reads the connection id, the packet number and the
  measurement byte from beyond the 31 bytes of the packet, creates a QUIC session and
  runs the estimator.
\<close>

theorem quic_long_header_truncated_is_inspected:
  "uint (current_length (buffer_of quic_long_truncated_packet)) = 31
   \<and> ref_is_quic (l4_src_port (data (buffer_of quic_long_truncated_packet)) 20)
        (l4_dst_port (data (buffer_of quic_long_truncated_packet)) 20)
   \<and> data (buffer_of quic_long_truncated_packet) 28 AND IS_LONG \<noteq> 0
   \<and> session (latency_node_packet ref_ops False 0 0 lm_empty
        (buffer_of quic_long_truncated_packet)) = Some 0
   \<and> \<not> live (expire_timers ref_ops 0 lm_empty) 0
   \<and> live (lmain (latency_node_packet ref_ops False 0 0 lm_empty
        (buffer_of quic_long_truncated_packet))) 0
   \<and> p_type (session_pool (lmain (latency_node_packet ref_ops False 0 0 lm_empty
        (buffer_of quic_long_truncated_packet))) 0) = P_QUIC
   \<and> est_id (est (session_pool (lmain (latency_node_packet ref_ops False 0 0 lm_empty
        (buffer_of quic_long_truncated_packet))) 0)) = 0x0102000000000000
   \<and> est_calls (est (session_pool (lmain (latency_node_packet ref_ops False 0 0 lm_empty
        (buffer_of quic_long_truncated_packet))) 0)) = 1
   \<and> rewritten (latency_node_packet ref_ops False 0 0 lm_empty
        (buffer_of quic_long_truncated_packet))"
  by (simp add: eval_defs quic_long_truncated_packet_def)

section \<open>Claim C5: the PLUS hop count\<close>

text \<open>
  The test of lines 416-417 compares the length that is left after the PLUS header with
  \<open>SIZE_PLUS + SIZE_PLUS_EXT_HELLO\<close>: with fewer than 23 bytes after the PLUS header
  the extended header is not looked at.
\<close>

lemma plus_extended_header_needs_23_bytes:
  "len L < SIZE_PLUS + SIZE_PLUS_EXT_HELLO \<Longrightarrow> plus_extended_header ops plus0 L = L"
  by (simp add: plus_extended_header_def Let_def)

text \<open>
  Claim C5 fails on the code. The PLUS packet below has the EXTENDED flag and, as its
  last three bytes, a hop-count extension header with hop count 3. It is matched and
  rewritten, but its hop count is still 3 when it leaves; the same packet followed by
  twenty more bytes leaves with hop count 4.
\<close>

theorem plus_hop_count_not_incremented:
  "plus_magic_and_flags ref_ops (data (buffer_of plus_hop_packet)) 28 AND EXTENDED ref_ops \<noteq> 0
   \<and> uint (current_length (buffer_of plus_hop_packet)) = SIZE_IP4 + SIZE_UDP + SIZE_PLUS + 3
   \<and> PCF_type ref_ops (data (buffer_of plus_hop_packet)) 48 = 1
   \<and> PCF_len_and_II ref_ops (data (buffer_of plus_hop_packet)) 48 AND 0x03 = 0
   \<and> data (buffer_of plus_hop_packet) (PCF_hop_c_at ref_ops 48) = 3
   \<and> session (latency_node_packet ref_ops False 0 0 lm_empty (buffer_of plus_hop_packet)) = Some 0
   \<and> p_type (session_pool (lmain (latency_node_packet ref_ops False 0 0 lm_empty
        (buffer_of plus_hop_packet))) 0) = P_PLUS
   \<and> rewritten (latency_node_packet ref_ops False 0 0 lm_empty (buffer_of plus_hop_packet))
   \<and> data (b0 (latency_node_packet ref_ops False 0 0 lm_empty (buffer_of plus_hop_packet)))
        (PCF_hop_c_at ref_ops 48) = 3
   \<and> data (b0 (latency_node_packet ref_ops False 0 0 lm_empty (buffer_of plus_hop_packet_padded)))
        (PCF_hop_c_at ref_ops 48) = 4"
  by (simp add: eval_defs plus_hop_packet_def plus_hop_packet_padded_def)

section \<open>Claim C6: the two keys of a session\<close>




section \<open>Claim C7: TCP segments whose options do not parse\<close>

text \<open>
  Claim C7, as amended: a TCP segment on which option parsing fails skips everything.
  No session is looked up, no estimator runs, and the packet is neither rewritten nor
  are its checksums recomputed, whether or not a session exists for its flow key: it
  leaves the node as it came, and the plugin state is the one the timer-wheel advance
  left.
\<close>

theorem tcp_bad_options_packet_is_skipped:
  fixes ops :: "('tm, 'e) latency_ops" and node_trace now_exp now lm b
  defines "ip0 \<equiv> vlib_buffer_get_current b"
    and "tcp0 \<equiv> vlib_buffer_get_current (vlib_buffer_advance b SIZE_IP4)"
    and "L \<equiv> latency_node_packet ops node_trace now_exp now lm b"
  assumes "SIZE_IP4 + SIZE_TCP \<le> uint (current_length b)"
    and "ip_version_and_header_length (data b) ip0 AND 0xF0 \<noteq> 0x60"
    and "ip_protocol (data b) ip0 = TCP_PROTOCOL"
    and "fst (tcp_options_parse_mod ops (data b) tcp0) \<noteq> 0"
  shows "b0 L = b \<and> lmain L = expire_timers ops now_exp lm \<and> session L = None \<and> \<not> rewritten L
           \<and> next0 L = IP4_LOOKUP"
proof -
  have l: "uint (current_length b - 20) = uint (current_length b) - 20"
    using uint_len_sub[of 20 "current_length b"] assms(4) by simp
  show ?thesis
    using assms(4-) l unfolding L_def ip0_def tcp0_def
    by (simp add: latency_node_packet_def inspect_def tcp_block_def skip_packet_def advance_def
          vlib_buffer_advance_def Let_def split_beta)
qed

theorem tcp_bad_options_packet_is_skipped_witness:
  "SIZE_IP4 + SIZE_TCP \<le> uint (current_length (buffer_of tcp_bad_options_packet))
   \<and> ip_protocol (data (buffer_of tcp_bad_options_packet)) 0 = TCP_PROTOCOL
   \<and> fst (ref_tcp_options_parse_mod (data (buffer_of tcp_bad_options_packet)) 20) = - 1
   \<and> b0 (latency_node_packet ref_ops False 0 0 lm_empty (buffer_of tcp_bad_options_packet))
        = buffer_of tcp_bad_options_packet
   \<and> lmain (latency_node_packet ref_ops False 0 0 lm_empty (buffer_of tcp_bad_options_packet))
        = expire_timers ref_ops 0 lm_empty
   \<and> session (latency_node_packet ref_ops False 0 0 lm_empty (buffer_of tcp_bad_options_packet)) = None
   \<and> \<not> rewritten (latency_node_packet ref_ops False 0 0 lm_empty (buffer_of tcp_bad_options_packet))"
proof -
  have h: "SIZE_IP4 + SIZE_TCP \<le> uint (current_length (buffer_of tcp_bad_options_packet))"
    "ip_version_and_header_length (data (buffer_of tcp_bad_options_packet))
       (vlib_buffer_get_current (buffer_of tcp_bad_options_packet)) AND 0xF0 \<noteq> 0x60"
    "ip_protocol (data (buffer_of tcp_bad_options_packet))
       (vlib_buffer_get_current (buffer_of tcp_bad_options_packet)) = TCP_PROTOCOL"
    "fst (tcp_options_parse_mod ref_ops (data (buffer_of tcp_bad_options_packet))
       (vlib_buffer_get_current (vlib_buffer_advance (buffer_of tcp_bad_options_packet) SIZE_IP4))) \<noteq> 0"
    by (simp_all add: eval_defs tcp_bad_options_packet_def upt_0_4)
  have f: "fst (ref_tcp_options_parse_mod (data (buffer_of tcp_bad_options_packet)) 20) = - 1"
    "ip_protocol (data (buffer_of tcp_bad_options_packet)) 0 = TCP_PROTOCOL"
    by (simp_all add: eval_defs tcp_bad_options_packet_def upt_0_4)
  from tcp_bad_options_packet_is_skipped[where ops = ref_ops and node_trace = False
      and now_exp = "0::nat" and now = "0::nat" and lm = lm_empty, OF h] h(1) f
  show ?thesis by simp
qed

text \<open>
  The claim as stated fails: after the SYN has created the session of the flow, a
  segment of the same flow with a bad option is found no session, and its destination
  address is not rewritten to the backend of the session.
\<close>

theorem tcp_bad_options_counterexample:
  "get_session_from_key (ref_make_key 0x0100000A 0x0200000A 0x8813 0x5000 TCP_PROTOCOL)
     (expire_timers ref_ops 5
        (fst (latency_node_fn ref_ops False lm_empty [(0, 0, buffer_of tcp_syn_packet)]))) = Some 0
   \<and> ip_src_address (data (buffer_of tcp_bad_options_packet)) 0 = 0x0100000A
   \<and> ip_dst_address (data (buffer_of tcp_bad_options_packet)) 0 = 0x0200000A
   \<and> l4_src_port (data (buffer_of tcp_bad_options_packet)) 20 = 0x8813
   \<and> l4_dst_port (data (buffer_of tcp_bad_options_packet)) 20 = 0x5000
   \<and> fst (ref_tcp_options_parse_mod (data (buffer_of tcp_bad_options_packet)) 20) \<noteq> 0
   \<and> \<not> rewritten (latency_node_packet ref_ops False 5 5
           (fst (latency_node_fn ref_ops False lm_empty [(0, 0, buffer_of tcp_syn_packet)]))
           (buffer_of tcp_bad_options_packet))
   \<and> b0 (latency_node_packet ref_ops False 5 5
           (fst (latency_node_fn ref_ops False lm_empty [(0, 0, buffer_of tcp_syn_packet)]))
           (buffer_of tcp_bad_options_packet)) = buffer_of tcp_bad_options_packet
   \<and> new_dst_ip (session_pool
           (fst (latency_node_fn ref_ops False lm_empty [(0, 0, buffer_of tcp_syn_packet)])) 0)
        = 0x0A01A8C0"
  by (simp add: eval_defs tcp_syn_packet_def tcp_bad_options_packet_def upt_0_4)

section \<open>Claim C8: packets that are not IPv4\<close>

text \<open>
  Claim C8, as amended: a packet whose IP version nibble is 6 is rejected. It leaves the
  node as it came, no session is looked up, created or updated, nothing is rewritten,
  and the plugin state is the one the timer-wheel advance of line 152 left. (Only the
  value 6 is tested: other versions than 4 are parsed as IPv4.)
\<close>

theorem ipv6_packet_is_skipped:
  fixes ops :: "('tm, 'e) latency_ops" and node_trace now_exp now lm b
  defines "L \<equiv> latency_node_packet ops node_trace now_exp now lm b"
  assumes "ip_version_and_header_length (data b) (vlib_buffer_get_current b) AND 0xF0 = 0x60"
  shows "b0 L = b \<and> lmain L = expire_timers ops now_exp lm \<and> session L = None \<and> \<not> rewritten L
           \<and> next0 L = IP4_LOOKUP"
  using assms(2) unfolding L_def
  by (simp add: latency_node_packet_def skip_packet_def advance_def vlib_buffer_advance_def Let_def)

theorem ipv6_packet_is_skipped_witness:
  "ip_version_and_header_length (data (buffer_of ipv6_packet)) (vlib_buffer_get_current (buffer_of ipv6_packet))
      AND 0xF0 = 0x60
   \<and> b0 (latency_node_packet ref_ops False 0 0 lm_empty (buffer_of ipv6_packet)) = buffer_of ipv6_packet
   \<and> lmain (latency_node_packet ref_ops False 0 0 lm_empty (buffer_of ipv6_packet)) = expire_timers ref_ops 0 lm_empty
   \<and> session (latency_node_packet ref_ops False 0 0 lm_empty (buffer_of ipv6_packet)) = None"
proof -
  have h: "ip_version_and_header_length (data (buffer_of ipv6_packet))
             (vlib_buffer_get_current (buffer_of ipv6_packet)) AND 0xF0 = 0x60"
    by (simp add: hdr_defs buffer_of_def mem_of_def ipv6_packet_def vlib_buffer_get_current_def)
  from ipv6_packet_is_skipped[OF h, of ref_ops False 0 0 lm_empty] h show ?thesis by simp
qed

text \<open>
  The claim as stated fails: a packet with version nibble 5 is taken for IPv4; it
  creates a session and its destination address is rewritten.
\<close>

theorem version_not_4_counterexample:
  "drop_bit 4 (ip_version_and_header_length (data (buffer_of version5_packet))
                 (vlib_buffer_get_current (buffer_of version5_packet))) = 5
   \<and> session (latency_node_packet ref_ops False 0 0 lm_empty (buffer_of version5_packet)) = Some 0
   \<and> \<not> live (expire_timers ref_ops 0 lm_empty) 0
   \<and> live (lmain (latency_node_packet ref_ops False 0 0 lm_empty (buffer_of version5_packet))) 0
   \<and> ip_dst_address (data (buffer_of version5_packet)) 0 = 0x0200000A
   \<and> ip_dst_address (data (b0 (latency_node_packet ref_ops False 0 0 lm_empty (buffer_of version5_packet)))) 0
        = 0x0A01A8C0"
  by (simp add: eval_defs version5_packet_def)

section \<open>Claim C9: the first TCP packet of a flow\<close>

text \<open>
  Claim C9, as amended: the first TCP packet (IPv4, with its 20-byte TCP header in the
  buffer) of an unknown flow (no session for its key) whose destination port maps to a
  backend, whose TCP options parse
  (\<open>tcp_options_parse_mod\<close> returns 0) and which finds the session pool not exhausted
  creates a session with protocol TCP, with \<open>init_src_ip\<close> and \<open>init_src_port\<close>
  taken from the packet's source and \<open>new_dst_ip\<close> from the destination map; the
  outgoing packet's destination is the backend and the session's \<open>pkt_count\<close> is 2.
  The NAT translation is assumed to do what the specification says of the forward
  direction.
\<close>

theorem tcp_first_packet_creates_session:
  fixes ops :: "('tm, 'e) latency_ops" and node_trace now_exp now lm b
  defines "ip0 \<equiv> vlib_buffer_get_current b"
    and "tcp0 \<equiv> vlib_buffer_get_current (vlib_buffer_advance b SIZE_IP4)"
    and "lm0 \<equiv> expire_timers ops now_exp lm"
    and "L \<equiv> latency_node_packet ops node_trace now_exp now lm b"
  defines "s \<equiv> session_pool (lmain L) (pool_get lm0)"
  assumes "SIZE_IP4 + SIZE_TCP \<le> uint (current_length b)"
    and "ip_version_and_header_length (data b) ip0 AND 0xF0 \<noteq> 0x60"
    and "ip_protocol (data b) ip0 = TCP_PROTOCOL"
    and "fst (tcp_options_parse_mod ops (data b) tcp0) = 0"
    and "get_session_from_key
           (make_key ops (ip_src_address (data b) ip0) (ip_dst_address (data b) ip0)
              (l4_src_port (data b) tcp0) (l4_dst_port (data b) tcp0) TCP_PROTOCOL) lm0 = None"
    and "get_new_dst ops (l4_dst_port (data b) tcp0) \<noteq> 0"
    and "\<not> pool_exhausted lm0"
    and "\<And>m init_src new_dst. ip_src_address m ip0 = init_src \<Longrightarrow>
           fst (ip_nat_translation ops m ip0 init_src new_dst)
           \<and> ip_dst_address (snd (ip_nat_translation ops m ip0 init_src new_dst)) ip0 = new_dst"
  shows "session L = Some (pool_get lm0) \<and> \<not> live lm0 (pool_get lm0)
         \<and> live (lmain L) (pool_get lm0)
         \<and> p_type s = P_TCP
         \<and> init_src_ip s = ip_src_address (data b) ip0
         \<and> init_src_port s = l4_src_port (data b) tcp0
         \<and> new_dst_ip s = get_new_dst ops (l4_dst_port (data b) tcp0)
         \<and> pkt_count s = 2
         \<and> ip_dst_address (data (b0 L)) ip0 = get_new_dst ops (l4_dst_port (data b) tcp0)"
proof -
  have l: "uint (current_length b - 20) = uint (current_length b) - 20"
    using uint_len_sub[of 20 "current_length b"] assms(6) by simp
  note nat = assms(13)[OF refl, of "data b" "get_new_dst ops (l4_dst_port (data b) tcp0)"]
  have far: "tcp0 + 16 \<notin> {ip0 + 16, ip0 + 16 + 1, ip0 + 16 + 2, ip0 + 16 + 3}"
      "tcp0 + 16 + 1 \<notin> {ip0 + 16, ip0 + 16 + 1, ip0 + 16 + 2, ip0 + 16 + 3}"
    using sint_add_20[of "current_data b"]
    by (auto simp: ip0_def tcp0_def vlib_buffer_get_current_def vlib_buffer_advance_def)
  have dst: "ip_dst_address (wr16 (wr16 (wr16 m (tcp0 + 16) x) (tcp0 + 16) y) (ip0 + 10) z) ip0
               = ip_dst_address m ip0" for m x y z
    using far by (simp add: ip_dst_address_def rd32_wr16_other)
  have 1: "session L = Some (pool_get lm0)"
    using assms(6-12) l unfolding L_def ip0_def tcp0_def lm0_def
    by (simp add: tcp_path_defs session_defs)
  have 2: "live (lmain L) (pool_get lm0)"
    using assms(6-12) l nat unfolding L_def ip0_def tcp0_def lm0_def
    by (simp add: tcp_path_defs session_defs live_def less_max_iff_disj split: latency_state_t.splits)
  have 3: "p_type s = P_TCP \<and> init_src_ip s = ip_src_address (data b) ip0
         \<and> init_src_port s = l4_src_port (data b) tcp0
         \<and> new_dst_ip s = get_new_dst ops (l4_dst_port (data b) tcp0)
         \<and> pkt_count s = 2"
    using assms(6-12) l nat unfolding s_def L_def ip0_def tcp0_def lm0_def
    by (simp add: tcp_path_defs session_defs split: latency_state_t.splits)
  have 4: "ip_dst_address (data (b0 L)) ip0 = get_new_dst ops (l4_dst_port (data b) tcp0)"
    using assms(6-12) l nat dst unfolding L_def ip0_def tcp0_def lm0_def
    by (simp add: tcp_path_defs session_defs tcp_checksum_at_def ip_checksum_at_def)
  from 1 2 3 4 pool_get_not_live[of lm0] show ?thesis by simp
qed

theorem tcp_first_packet_creates_session_witness:
  "SIZE_IP4 + SIZE_TCP \<le> uint (current_length (buffer_of tcp_syn_packet))
   \<and> ip_protocol (data (buffer_of tcp_syn_packet)) 0 = TCP_PROTOCOL
   \<and> get_session_from_key (ref_make_key 0x0100000A 0x0200000A 0x8813 0x5000 TCP_PROTOCOL)
        (expire_timers ref_ops 0 lm_empty) = None
   \<and> ref_get_new_dst 0x5000 = 0x0A01A8C0
   \<and> fst (ref_tcp_options_parse_mod (data (buffer_of tcp_syn_packet)) 20) = 0
   \<and> \<not> pool_exhausted (expire_timers ref_ops 0 lm_empty)
   \<and> session (latency_node_packet ref_ops False 0 0 lm_empty (buffer_of tcp_syn_packet)) = Some 0
   \<and> p_type (session_pool (lmain (latency_node_packet ref_ops False 0 0 lm_empty
        (buffer_of tcp_syn_packet))) 0) = P_TCP
   \<and> init_src_ip (session_pool (lmain (latency_node_packet ref_ops False 0 0 lm_empty
        (buffer_of tcp_syn_packet))) 0) = 0x0100000A
   \<and> init_src_port (session_pool (lmain (latency_node_packet ref_ops False 0 0 lm_empty
        (buffer_of tcp_syn_packet))) 0) = 0x8813
   \<and> new_dst_ip (session_pool (lmain (latency_node_packet ref_ops False 0 0 lm_empty
        (buffer_of tcp_syn_packet))) 0) = 0x0A01A8C0
   \<and> pkt_count (session_pool (lmain (latency_node_packet ref_ops False 0 0 lm_empty
        (buffer_of tcp_syn_packet))) 0) = 2
   \<and> ip_dst_address (data (b0 (latency_node_packet ref_ops False 0 0 lm_empty
        (buffer_of tcp_syn_packet)))) 0 = 0x0A01A8C0"
proof -
  note t = tcp_first_packet_creates_session[where ops = ref_ops and node_trace = False
      and now_exp = "0::nat" and now = "0::nat" and lm = lm_empty and b = "buffer_of tcp_syn_packet",
      OF _ _ _ _ _ _ _ ref_nat_forward]
  have h: "SIZE_IP4 + SIZE_TCP \<le> uint (current_length (buffer_of tcp_syn_packet))"
    "ip_version_and_header_length (data (buffer_of tcp_syn_packet))
       (vlib_buffer_get_current (buffer_of tcp_syn_packet)) AND 0xF0 \<noteq> 0x60"
    "ip_protocol (data (buffer_of tcp_syn_packet))
       (vlib_buffer_get_current (buffer_of tcp_syn_packet)) = TCP_PROTOCOL"
    "fst (tcp_options_parse_mod ref_ops (data (buffer_of tcp_syn_packet))
       (vlib_buffer_get_current (vlib_buffer_advance (buffer_of tcp_syn_packet) SIZE_IP4))) = 0"
    by (simp_all add: eval_defs tcp_syn_packet_def)
  have k: "get_session_from_key (ref_make_key 0x0100000A 0x0200000A 0x8813 0x5000 TCP_PROTOCOL)
        (expire_timers ref_ops 0 lm_empty) = None" "ref_get_new_dst 0x5000 = 0x0A01A8C0"
    "pool_get (expire_timers ref_ops 0 lm_empty) = 0"
    "\<not> pool_exhausted (expire_timers ref_ops 0 lm_empty)"
    by (simp_all add: eval_defs)
  have o: "fst (ref_tcp_options_parse_mod (data (buffer_of tcp_syn_packet)) 20) = 0"
    by (simp add: eval_defs tcp_syn_packet_def)
  have f: "ip_src_address (data (buffer_of tcp_syn_packet)) 0 = 0x0100000A"
    "ip_dst_address (data (buffer_of tcp_syn_packet)) 0 = 0x0200000A"
    "l4_src_port (data (buffer_of tcp_syn_packet)) 20 = 0x8813"
    "l4_dst_port (data (buffer_of tcp_syn_packet)) 20 = 0x5000"
    "vlib_buffer_get_current (buffer_of tcp_syn_packet) = 0"
    "vlib_buffer_get_current (vlib_buffer_advance (buffer_of tcp_syn_packet) SIZE_IP4) = 20"
    by (simp_all add: hdr_defs rd32_def rd16_def buffer_of_def mem_of_def tcp_syn_packet_def
          vlib_buffer_get_current_def vlib_buffer_advance_def)
  from t[OF h] h k f o show ?thesis by (simp add: ref_ops_simps)
qed

text \<open>
  The claim as stated fails. The segment \<open>tcp_bad_options_packet\<close> is the first TCP
  packet of an unknown flow and its destination port maps to a backend, but its options
  do not parse: no session is created and its destination is left as it came. With the
  pool exhausted, the SYN of a second client is given a handle outside the pool: the
  pool still holds the first client's session only.
\<close>

theorem tcp_first_packet_no_session_counterexample:
  "ip_protocol (data (buffer_of tcp_bad_options_packet)) 0 = TCP_PROTOCOL
   \<and> get_session_from_key (ref_make_key 0x0100000A 0x0200000A 0x8813 0x5000 TCP_PROTOCOL)
        (expire_timers ref_ops 0 lm_empty) = None
   \<and> ref_get_new_dst (l4_dst_port (data (buffer_of tcp_bad_options_packet)) 20) = 0x0A01A8C0
   \<and> fst (ref_tcp_options_parse_mod (data (buffer_of tcp_bad_options_packet)) 20) \<noteq> 0
   \<and> session (latency_node_packet ref_ops False 0 0 lm_empty (buffer_of tcp_bad_options_packet))
        = None
   \<and> pool_len (lmain (latency_node_packet ref_ops False 0 0 lm_empty
        (buffer_of tcp_bad_options_packet))) = 0
   \<and> ip_dst_address (data (b0 (latency_node_packet ref_ops False 0 0 lm_empty
        (buffer_of tcp_bad_options_packet)))) 0 = 0x0200000A
   \<and> ip_protocol (data (buffer_of tcp_syn_other_client_packet)) 0 = TCP_PROTOCOL
   \<and> get_session_from_key (ref_make_key 0x0300000A 0x0200000A 0x8813 0x5000 TCP_PROTOCOL)
        (expire_timers ref_ops 5 lm_full) = None
   \<and> fst (ref_tcp_options_parse_mod (data (buffer_of tcp_syn_other_client_packet)) 20) = 0
   \<and> pool_exhausted (expire_timers ref_ops 5 lm_full)
   \<and> session (latency_node_packet ref_ops False 5 5 lm_full
        (buffer_of tcp_syn_other_client_packet)) = Some 1
   \<and> \<not> live (lmain (latency_node_packet ref_ops False 5 5 lm_full
        (buffer_of tcp_syn_other_client_packet))) 1
   \<and> pool_len (lmain (latency_node_packet ref_ops False 5 5 lm_full
        (buffer_of tcp_syn_other_client_packet))) = 1
   \<and> init_src_ip (session_pool (lmain (latency_node_packet ref_ops False 5 5 lm_full
        (buffer_of tcp_syn_other_client_packet))) 0) = 0x0100000A"
  by (simp add: eval_defs lm_full_def tcp_bad_options_packet_def tcp_syn_packet_def
        tcp_syn_other_client_packet_def upt_0_4)

section \<open>Claim C10: SYN+ACK segments\<close>

text \<open>
  Claim C10, as amended: a TCP segment (IPv4, with its 20-byte TCP header in the
  buffer) with SYN and ACK set whose TCP options parse
  (\<open>tcp_options_parse_mod\<close> returns 0) is kept from RTT estimation only. With no
  session for its key, a backend for its destination port and the session pool not
  exhausted it creates a session, with \<open>init_src_ip\<close> and \<open>init_src_port\<close> from its
  own source; the estimator storage stays as allocated, \<open>pkt_count\<close> is incremented to
  2, the packet is rewritten, both checksums are stored and the timer, started at
  creation, is armed a second time. The NAT translation is assumed to do what the
  specification says of the forward direction.
\<close>

theorem tcp_syn_ack_creates_session:
  fixes ops :: "('tm, 'e) latency_ops" and node_trace now_exp now lm b
  defines "ip0 \<equiv> vlib_buffer_get_current b"
    and "tcp0 \<equiv> vlib_buffer_get_current (vlib_buffer_advance b SIZE_IP4)"
    and "lm0 \<equiv> expire_timers ops now_exp lm"
    and "L \<equiv> latency_node_packet ops node_trace now_exp now lm b"
  defines "s \<equiv> session_pool (lmain L) (pool_get lm0)"
    and "m1 \<equiv> snd (ip_nat_translation ops (data b) ip0 (ip_src_address (data b) ip0)
                      (get_new_dst ops (l4_dst_port (data b) tcp0)))"
  defines "b1 \<equiv> (vlib_buffer_advance (vlib_buffer_advance b SIZE_IP4) SIZE_TCP)
                   \<lparr>data := wr16 m1 (tcp_checksum_at tcp0) 0\<rparr>"
  defines "m2 \<equiv> wr16 (data b1) (tcp_checksum_at tcp0) (ip4_tcp_udp_compute_checksum ops b1 ip0)"
  assumes "SIZE_IP4 + SIZE_TCP \<le> uint (current_length b)"
    and "ip_version_and_header_length (data b) ip0 AND 0xF0 \<noteq> 0x60"
    and "ip_protocol (data b) ip0 = TCP_PROTOCOL"
    and "fst (tcp_options_parse_mod ops (data b) tcp0) = 0"
    and "tcp_syn (data b) tcp0 \<and> tcp_ack (data b) tcp0"
    and "get_session_from_key
           (make_key ops (ip_src_address (data b) ip0) (ip_dst_address (data b) ip0)
              (l4_src_port (data b) tcp0) (l4_dst_port (data b) tcp0) TCP_PROTOCOL) lm0 = None"
    and "get_new_dst ops (l4_dst_port (data b) tcp0) \<noteq> 0"
    and "\<not> pool_exhausted lm0"
    and "\<And>m init_src new_dst. ip_src_address m ip0 = init_src \<Longrightarrow>
           fst (ip_nat_translation ops m ip0 init_src new_dst)
           \<and> ip_dst_address (snd (ip_nat_translation ops m ip0 init_src new_dst)) ip0 = new_dst"
  shows "session L = Some (pool_get lm0) \<and> \<not> live lm0 (pool_get lm0)
         \<and> live (lmain L) (pool_get lm0)
         \<and> init_src_ip s = ip_src_address (data b) ip0
         \<and> init_src_port s = l4_src_port (data b) tcp0
         \<and> pkt_count s = 2
         \<and> est s = est_alloc ops P_TCP
         \<and> rewritten L
         \<and> wr16 m2 (ip_checksum_at ip0) (ip4_header_checksum ops m2 ip0) = data (b0 L)
         \<and> ip_dst_address (data (b0 L)) ip0 = get_new_dst ops (l4_dst_port (data b) tcp0)
         \<and> timer_expiry s = wheel_tick lm0 + TIMEOUT
         \<and> timer_arms s = 2"
proof -
  have l: "uint (current_length b - 20) = uint (current_length b) - 20"
    using uint_len_sub[of 20 "current_length b"] assms(9) by simp
  note nat = assms(17)[OF refl, of "data b" "get_new_dst ops (l4_dst_port (data b) tcp0)"]
  have far: "tcp0 + 16 \<notin> {ip0 + 16, ip0 + 16 + 1, ip0 + 16 + 2, ip0 + 16 + 3}"
      "tcp0 + 16 + 1 \<notin> {ip0 + 16, ip0 + 16 + 1, ip0 + 16 + 2, ip0 + 16 + 3}"
    using sint_add_20[of "current_data b"]
    by (auto simp: ip0_def tcp0_def vlib_buffer_get_current_def vlib_buffer_advance_def)
  have dst: "ip_dst_address (wr16 (wr16 (wr16 m (tcp0 + 16) x) (tcp0 + 16) y) (ip0 + 10) z) ip0
               = ip_dst_address m ip0" for m x y z
    using far by (simp add: ip_dst_address_def rd32_wr16_other)
  have 1: "session L = Some (pool_get lm0)"
    using assms(9-16) l unfolding L_def ip0_def tcp0_def lm0_def
    by (simp add: tcp_path_defs session_defs)
  have 2: "live (lmain L) (pool_get lm0)"
    using assms(9-16) l nat unfolding L_def ip0_def tcp0_def lm0_def
    by (simp add: tcp_path_defs session_defs live_def less_max_iff_disj split: latency_state_t.splits)
  have 3: "init_src_ip s = ip_src_address (data b) ip0
         \<and> init_src_port s = l4_src_port (data b) tcp0
         \<and> pkt_count s = 2 \<and> est s = est_alloc ops P_TCP
         \<and> timer_expiry s = wheel_tick lm0 + TIMEOUT \<and> timer_arms s = 2"
    using assms(9-16) l nat unfolding s_def L_def ip0_def tcp0_def lm0_def
    by (simp add: tcp_path_defs session_defs)
  have 4: "rewritten L \<and> wr16 m2 (ip_checksum_at ip0) (ip4_header_checksum ops m2 ip0) = data (b0 L)"
    using assms(9-16) l nat unfolding L_def ip0_def tcp0_def lm0_def m2_def b1_def m1_def
    by (simp add: tcp_path_defs session_defs)
  have 5: "ip_dst_address (data (b0 L)) ip0 = get_new_dst ops (l4_dst_port (data b) tcp0)"
    using assms(9-16) l nat dst unfolding L_def ip0_def tcp0_def lm0_def
    by (simp add: tcp_path_defs session_defs tcp_checksum_at_def ip_checksum_at_def)
  from 1 2 3 4 5 pool_get_not_live[of lm0] show ?thesis by simp
qed

theorem tcp_syn_ack_creates_session_witness:
  "SIZE_IP4 + SIZE_TCP \<le> uint (current_length (buffer_of tcp_syn_ack_packet))
   \<and> ip_protocol (data (buffer_of tcp_syn_ack_packet)) 0 = TCP_PROTOCOL
   \<and> tcp_syn (data (buffer_of tcp_syn_ack_packet)) 20
   \<and> tcp_ack (data (buffer_of tcp_syn_ack_packet)) 20
   \<and> fst (ref_tcp_options_parse_mod (data (buffer_of tcp_syn_ack_packet)) 20) = 0
   \<and> \<not> pool_exhausted (expire_timers ref_ops 0 lm_empty)
   \<and> session (latency_node_packet ref_ops False 0 0 lm_empty (buffer_of tcp_syn_ack_packet)) = Some 0
   \<and> live (lmain (latency_node_packet ref_ops False 0 0 lm_empty (buffer_of tcp_syn_ack_packet))) 0
   \<and> init_src_ip (session_pool (lmain (latency_node_packet ref_ops False 0 0 lm_empty
        (buffer_of tcp_syn_ack_packet))) 0) = 0x0100000A
   \<and> init_src_port (session_pool (lmain (latency_node_packet ref_ops False 0 0 lm_empty
        (buffer_of tcp_syn_ack_packet))) 0) = 0x8813
   \<and> pkt_count (session_pool (lmain (latency_node_packet ref_ops False 0 0 lm_empty
        (buffer_of tcp_syn_ack_packet))) 0) = 2
   \<and> est_calls (est (session_pool (lmain (latency_node_packet ref_ops False 0 0 lm_empty
        (buffer_of tcp_syn_ack_packet))) 0)) = 0
   \<and> rewritten (latency_node_packet ref_ops False 0 0 lm_empty (buffer_of tcp_syn_ack_packet))
   \<and> ip_dst_address (data (b0 (latency_node_packet ref_ops False 0 0 lm_empty
        (buffer_of tcp_syn_ack_packet)))) 0 = 0x0A01A8C0
   \<and> timer_expiry (session_pool (lmain (latency_node_packet ref_ops False 0 0 lm_empty
        (buffer_of tcp_syn_ack_packet))) 0) = TIMEOUT
   \<and> timer_arms (session_pool (lmain (latency_node_packet ref_ops False 0 0 lm_empty
        (buffer_of tcp_syn_ack_packet))) 0) = 2"
proof -
  note t = tcp_syn_ack_creates_session[where ops = ref_ops and node_trace = False
      and now_exp = "0::nat" and now = "0::nat" and lm = lm_empty
      and b = "buffer_of tcp_syn_ack_packet", OF _ _ _ _ _ _ _ _ ref_nat_forward]
  have h: "SIZE_IP4 + SIZE_TCP \<le> uint (current_length (buffer_of tcp_syn_ack_packet))"
    "ip_version_and_header_length (data (buffer_of tcp_syn_ack_packet))
       (vlib_buffer_get_current (buffer_of tcp_syn_ack_packet)) AND 0xF0 \<noteq> 0x60"
    "ip_protocol (data (buffer_of tcp_syn_ack_packet))
       (vlib_buffer_get_current (buffer_of tcp_syn_ack_packet)) = TCP_PROTOCOL"
    "fst (tcp_options_parse_mod ref_ops (data (buffer_of tcp_syn_ack_packet))
       (vlib_buffer_get_current (vlib_buffer_advance (buffer_of tcp_syn_ack_packet) SIZE_IP4))) = 0"
    "tcp_syn (data (buffer_of tcp_syn_ack_packet))
       (vlib_buffer_get_current (vlib_buffer_advance (buffer_of tcp_syn_ack_packet) SIZE_IP4))
     \<and> tcp_ack (data (buffer_of tcp_syn_ack_packet))
       (vlib_buffer_get_current (vlib_buffer_advance (buffer_of tcp_syn_ack_packet) SIZE_IP4))"
    by (simp_all add: eval_defs tcp_syn_ack_packet_def)
  have k: "get_session_from_key (ref_make_key 0x0100000A 0x0200000A 0x8813 0x5000 TCP_PROTOCOL)
        (expire_timers ref_ops 0 lm_empty) = None" "ref_get_new_dst 0x5000 = 0x0A01A8C0"
    "pool_get (expire_timers ref_ops 0 lm_empty) = 0"
    "wheel_tick (expire_timers ref_ops 0 lm_empty) = 0"
    "\<not> pool_exhausted (expire_timers ref_ops 0 lm_empty)"
    by (simp_all add: eval_defs)
  have o: "fst (ref_tcp_options_parse_mod (data (buffer_of tcp_syn_ack_packet)) 20) = 0"
    by (simp add: eval_defs tcp_syn_ack_packet_def)
  have f: "ip_src_address (data (buffer_of tcp_syn_ack_packet)) 0 = 0x0100000A"
    "ip_dst_address (data (buffer_of tcp_syn_ack_packet)) 0 = 0x0200000A"
    "l4_src_port (data (buffer_of tcp_syn_ack_packet)) 20 = 0x8813"
    "l4_dst_port (data (buffer_of tcp_syn_ack_packet)) 20 = 0x5000"
    "vlib_buffer_get_current (buffer_of tcp_syn_ack_packet) = 0"
    "vlib_buffer_get_current (vlib_buffer_advance (buffer_of tcp_syn_ack_packet) SIZE_IP4) = 20"
    by (simp_all add: hdr_defs rd32_def rd16_def buffer_of_def mem_of_def tcp_syn_ack_packet_def
          vlib_buffer_get_current_def vlib_buffer_advance_def)
  from t[OF h] h k f o show ?thesis by (simp add: ref_ops_simps)
qed

text \<open>
  The claim as stated fails. The SYN+ACK \<open>tcp_syn_ack_bad_options_packet\<close> has no
  session for its key and a backend for its destination port, but its options do not
  parse: it creates no session, \<open>pkt_count\<close> is not touched and the segment is not
  rewritten. With the pool exhausted, the SYN+ACK of a second client is given a handle
  outside the pool: the pool still holds the first client's session only.
\<close>

theorem tcp_syn_ack_no_session_counterexample:
  "tcp_syn (data (buffer_of tcp_syn_ack_bad_options_packet)) 20
   \<and> tcp_ack (data (buffer_of tcp_syn_ack_bad_options_packet)) 20
   \<and> get_session_from_key (ref_make_key 0x0100000A 0x0200000A 0x8813 0x5000 TCP_PROTOCOL)
        (expire_timers ref_ops 0 lm_empty) = None
   \<and> ref_get_new_dst (l4_dst_port (data (buffer_of tcp_syn_ack_bad_options_packet)) 20) = 0x0A01A8C0
   \<and> fst (ref_tcp_options_parse_mod (data (buffer_of tcp_syn_ack_bad_options_packet)) 20) \<noteq> 0
   \<and> session (latency_node_packet ref_ops False 0 0 lm_empty
        (buffer_of tcp_syn_ack_bad_options_packet)) = None
   \<and> lmain (latency_node_packet ref_ops False 0 0 lm_empty
        (buffer_of tcp_syn_ack_bad_options_packet)) = expire_timers ref_ops 0 lm_empty
   \<and> \<not> rewritten (latency_node_packet ref_ops False 0 0 lm_empty
        (buffer_of tcp_syn_ack_bad_options_packet))
   \<and> b0 (latency_node_packet ref_ops False 0 0 lm_empty
        (buffer_of tcp_syn_ack_bad_options_packet)) = buffer_of tcp_syn_ack_bad_options_packet
   \<and> tcp_syn (data (buffer_of tcp_syn_ack_other_client_packet)) 20
   \<and> tcp_ack (data (buffer_of tcp_syn_ack_other_client_packet)) 20
   \<and> get_session_from_key (ref_make_key 0x0300000A 0x0200000A 0x8813 0x5000 TCP_PROTOCOL)
        (expire_timers ref_ops 5 lm_full) = None
   \<and> fst (ref_tcp_options_parse_mod (data (buffer_of tcp_syn_ack_other_client_packet)) 20) = 0
   \<and> pool_exhausted (expire_timers ref_ops 5 lm_full)
   \<and> session (latency_node_packet ref_ops False 5 5 lm_full
        (buffer_of tcp_syn_ack_other_client_packet)) = Some 1
   \<and> \<not> live (lmain (latency_node_packet ref_ops False 5 5 lm_full
        (buffer_of tcp_syn_ack_other_client_packet))) 1
   \<and> pool_len (lmain (latency_node_packet ref_ops False 5 5 lm_full
        (buffer_of tcp_syn_ack_other_client_packet))) = 1
   \<and> init_src_ip (session_pool (lmain (latency_node_packet ref_ops False 5 5 lm_full
        (buffer_of tcp_syn_ack_other_client_packet))) 0) = 0x0100000A"
  by (simp add: eval_defs lm_full_def tcp_syn_ack_bad_options_packet_def tcp_syn_packet_def
        tcp_syn_ack_other_client_packet_def upt_0_4)


end
